theory Spec2Isabelle
  imports Complex_Main
begin

section \<open>Data model\<close>

text \<open>
  The program (\<^verbatim>\<open>MINOR/Ckks-RNS/Ckks.py\<close>) encrypts two weight vectors read from CSV
  files, aggregates the ciphertexts and decrypts the aggregate. It keeps everything in
  files below the directory of the script. The CKKS engine itself is the Pyfhel library,
  which is not part of the repository: its operations are parameters of the model
  (record \<open>env\<close> below), and so are its opaque values (type variables \<open>'c\<close> context,
  \<open>'p\<close> public key, \<open>'s\<close> secret key, \<open>'m\<close> plaintext, \<open>'t\<close> ciphertext, \<open>'r\<close> state of
  the random source). Python floats are modelled as reals; console output is not modelled.
\<close>

type_synonym path = string

datatype error =
    FileNotFoundError path
  | FileExistsError path
  | ReadError path
  | CoefficientColumnNotFound
  | FloatError
  | IndexError
  | LengthMismatch nat nat
  | WeightLengthMismatch nat nat
  | LibraryError
  | OSError path

datatype cell = Num real | Str string

type_synonym dataframe = "(string \<times> cell list) list"

text \<open>
  What a path holds. A file holds what was saved to it; opening it as another kind of
  file fails (\<open>ReadError\<close>).
\<close>

datatype ('c, 'p, 's, 't) content =
    Directory
  | ContextFile 'c
  | PublicKeyFile 'p
  | SecretKeyFile 's
  | CiphertextFile 't
  | CsvFile dataframe

record ('c, 'p, 's, 't, 'r) world =
  files :: "path \<rightharpoonup> ('c, 'p, 's, 't) content"
  entropy :: 'r

text \<open>A \<^verbatim>\<open>Pyfhel\<close> object: the context and keys it has been given so far.\<close>

record ('c, 'p, 's) he =
  he_context :: "'c option"
  he_public :: "'p option"
  he_secret :: "'s option"

text \<open>
  The library operations the program calls. \<open>None\<close> stands for an exception raised
  inside the library. \<open>ctxt_add\<close> and \<open>ctxt_mul\<close> are what \<^verbatim>\<open>+=\<close> and \<^verbatim>\<open>*=\<close> compute
  on a \<^verbatim>\<open>PyCtxt\<close>; \<open>py_float\<close> and \<open>py_str\<close> are Python's \<^verbatim>\<open>float()\<close> of a string and
  \<^verbatim>\<open>str()\<close> of a number.
\<close>

record ('c, 'p, 's, 'm, 't, 'r) env =
  contextGen :: "string \<Rightarrow> nat \<Rightarrow> nat \<Rightarrow> nat \<Rightarrow> 'c option"
  keyGen :: "'c \<Rightarrow> 'r \<Rightarrow> ('p \<times> 's) \<times> 'r"
  encodeVec :: "('c, 'p, 's) he \<Rightarrow> real list \<Rightarrow> 'm option"
  encryptPtxt :: "('c, 'p, 's) he \<Rightarrow> 'm \<Rightarrow> 'r \<Rightarrow> ('t \<times> 'r) option"
  decryptFrac :: "('c, 'p, 's) he \<Rightarrow> 't \<Rightarrow> real list option"
  ctxt_add :: "('c, 'p, 's) he \<Rightarrow> 't \<Rightarrow> 't \<Rightarrow> 't option"
  ctxt_mul :: "('c, 'p, 's) he \<Rightarrow> 't \<Rightarrow> real \<Rightarrow> 't option"
  py_float :: "string \<Rightarrow> real option"
  py_str :: "real \<Rightarrow> string"

section \<open>Paths\<close>

text \<open>\<^verbatim>\<open>os.path.join\<close> of two components (POSIX).\<close>

definition join :: "path \<Rightarrow> string \<Rightarrow> path" where
  "join a b =
     (if take 1 b = ''/'' then b
      else if a = [] \<or> last a = CHR ''/'' then a @ b
      else a @ ''/'' @ b)"

text \<open>The separator \<^verbatim>\<open>os.path.join\<close> puts after a first component.\<close>

definition sep :: "path \<Rightarrow> string" where
  "sep a = (if a = [] \<or> last a = CHR ''/'' then [] else ''/'')"

text \<open>
  \<^verbatim>\<open>os.path.dirname\<close>: the path up to its last slash, without trailing slashes unless
  it is the root.
\<close>

definition dirname :: "path \<Rightarrow> path" where
  "dirname p =
     (let head = rev (dropWhile (\<lambda>c. c \<noteq> CHR ''/'') (rev p))
      in if filter (\<lambda>c. c \<noteq> CHR ''/'') head = [] then head
         else rev (dropWhile (\<lambda>c. c = CHR ''/'') (rev head)))"

text \<open>\<open>here\<close> is \<^verbatim>\<open>HERE\<close>, the directory of the script.\<close>

definition KEY_DIR :: "path \<Rightarrow> path" where
  "KEY_DIR here = join here ''keys''"

definition CT_DIR :: "path \<Rightarrow> path" where
  "CT_DIR here = join here ''ciphertexts''"

definition GLOBAL_DIR :: "path \<Rightarrow> path" where
  "GLOBAL_DIR here = join here ''global''"

definition ctx_path :: "path \<Rightarrow> path" where
  "ctx_path here = join (KEY_DIR here) ''ckks_context.bin''"

definition pub_path :: "path \<Rightarrow> path" where
  "pub_path here = join (KEY_DIR here) ''ckks_public.key''"

definition sec_path :: "path \<Rightarrow> path" where
  "sec_path here = join (KEY_DIR here) ''ckks_secret.key''"

section \<open>File access\<close>

text \<open>\<^verbatim>\<open>os.path.exists\<close>: true of files and of directories.\<close>

definition exists :: "('c, 'p, 's, 't, 'r) world \<Rightarrow> path \<Rightarrow> bool" where
  "exists w p = (files w p \<noteq> None)"

text \<open>The state in which path \<open>p\<close> holds \<open>f\<close> and every other path is as in \<open>w\<close>.\<close>

definition put :: "('c, 'p, 's, 't, 'r) world \<Rightarrow> path \<Rightarrow> ('c, 'p, 's, 't) content
    \<Rightarrow> ('c, 'p, 's, 't, 'r) world" where
  "put w p f = w\<lparr>files := (files w)(p \<mapsto> f)\<rparr>"

text \<open>
  A directory to write into: the current directory (the empty name), the root, or a
  path that holds a directory.
\<close>

definition is_dir :: "('c, 'p, 's, 't, 'r) world \<Rightarrow> path \<Rightarrow> bool" where
  "is_dir w d =
     (if filter (\<lambda>c. c \<noteq> CHR ''/'') d = [] then True else files w d = Some Directory)"

text \<open>
  Writing a file (\<^verbatim>\<open>contextSave\<close>, \<^verbatim>\<open>savepublicKey\<close>, \<^verbatim>\<open>savesecretKey\<close>,
  \<^verbatim>\<open>ctxt.save\<close>, \<^verbatim>\<open>to_csv\<close>) creates or replaces the file. It raises when the
  directory of the path does not exist and when the path is a directory. Other
  failures of the operating system (permissions, a full disk) are not modelled.
\<close>

definition save :: "('c, 'p, 's, 't, 'r) world \<Rightarrow> path \<Rightarrow> ('c, 'p, 's, 't) content
    \<Rightarrow> error + ('c, 'p, 's, 't, 'r) world" where
  "save w p f =
     (if is_dir w (dirname p) then
        (if files w p = Some Directory then Inl (OSError p) else Inr (put w p f))
      else Inl (OSError p))"

text \<open>\<^verbatim>\<open>HE.contextLoad\<close>, \<^verbatim>\<open>HE.restorepublicKey\<close>, \<^verbatim>\<open>HE.restoresecretKey\<close>.\<close>

definition contextLoad :: "('c, 'p, 's, 't, 'r) world \<Rightarrow> ('c, 'p, 's) he \<Rightarrow> path
    \<Rightarrow> error + ('c, 'p, 's) he" where
  "contextLoad w HE p =
     (case files w p of
        None \<Rightarrow> Inl (FileNotFoundError p)
      | Some (ContextFile c) \<Rightarrow> Inr (HE\<lparr>he_context := Some c\<rparr>)
      | Some _ \<Rightarrow> Inl (ReadError p))"

definition restorepublicKey :: "('c, 'p, 's, 't, 'r) world \<Rightarrow> ('c, 'p, 's) he \<Rightarrow> path
    \<Rightarrow> error + ('c, 'p, 's) he" where
  "restorepublicKey w HE p =
     (case files w p of
        None \<Rightarrow> Inl (FileNotFoundError p)
      | Some (PublicKeyFile k) \<Rightarrow> Inr (HE\<lparr>he_public := Some k\<rparr>)
      | Some _ \<Rightarrow> Inl (ReadError p))"

definition restoresecretKey :: "('c, 'p, 's, 't, 'r) world \<Rightarrow> ('c, 'p, 's) he \<Rightarrow> path
    \<Rightarrow> error + ('c, 'p, 's) he" where
  "restoresecretKey w HE p =
     (case files w p of
        None \<Rightarrow> Inl (FileNotFoundError p)
      | Some (SecretKeyFile k) \<Rightarrow> Inr (HE\<lparr>he_secret := Some k\<rparr>)
      | Some _ \<Rightarrow> Inl (ReadError p))"

text \<open>\<^verbatim>\<open>PyCtxt(pyfhel=HE, serialized=True, fileName=p)\<close>.\<close>

definition load_ctxt :: "('c, 'p, 's, 't, 'r) world \<Rightarrow> path \<Rightarrow> error + 't" where
  "load_ctxt w p =
     (case files w p of
        None \<Rightarrow> Inl (FileNotFoundError p)
      | Some (CiphertextFile c) \<Rightarrow> Inr c
      | Some _ \<Rightarrow> Inl (ReadError p))"

text \<open>\<^verbatim>\<open>Pyfhel()\<close>: a fresh object, with no context and no keys.\<close>

definition Pyfhel :: "('c, 'p, 's) he" where
  "Pyfhel = \<lparr>he_context = None, he_public = None, he_secret = None\<rparr>"

section \<open>Keys\<close>

definition keygen_if_missing :: "('c, 'p, 's, 'm, 't, 'r) env \<Rightarrow> path
    \<Rightarrow> ('c, 'p, 's, 't, 'r) world \<Rightarrow> nat \<Rightarrow> nat \<Rightarrow> nat
    \<Rightarrow> (error + ('c, 'p, 's) he) \<times> ('c, 'p, 's, 't, 'r) world" where
  "keygen_if_missing L here w poly_degree scale_bits sec_bits =
     (if exists w (ctx_path here) \<and> exists w (pub_path here) \<and> exists w (sec_path here) then
        (case contextLoad w Pyfhel (ctx_path here) of
           Inl e \<Rightarrow> (Inl e, w)
         | Inr HE1 \<Rightarrow>
        (case restorepublicKey w HE1 (pub_path here) of
           Inl e \<Rightarrow> (Inl e, w)
         | Inr HE2 \<Rightarrow>
        (case restoresecretKey w HE2 (sec_path here) of
           Inl e \<Rightarrow> (Inl e, w)
         | Inr HE3 \<Rightarrow> (Inr HE3, w))))
      else
        (case contextGen L ''CKKS'' poly_degree (2 ^ scale_bits) sec_bits of
           None \<Rightarrow> (Inl LibraryError, w)
         | Some c \<Rightarrow>
             (case keyGen L c (entropy w) of
                ((pk, sk), r) \<Rightarrow>
                  let w0 = w\<lparr>entropy := r\<rparr>
                  in
                  (case save w0 (ctx_path here) (ContextFile c) of
                     Inl e \<Rightarrow> (Inl e, w0)
                   | Inr w1 \<Rightarrow>
                  (case save w1 (pub_path here) (PublicKeyFile pk) of
                     Inl e \<Rightarrow> (Inl e, w1)
                   | Inr w2 \<Rightarrow>
                  (case save w2 (sec_path here) (SecretKeyFile sk) of
                     Inl e \<Rightarrow> (Inl e, w2)
                   | Inr w3 \<Rightarrow>
                       (Inr \<lparr>he_context = Some c, he_public = Some pk, he_secret = Some sk\<rparr>,
                        w3)))))))"

text \<open>The defaults of \<^verbatim>\<open>keygen_if_missing()\<close>: \<^verbatim>\<open>2**15\<close>, 40 and 128.\<close>

definition keygen_default :: "('c, 'p, 's, 'm, 't, 'r) env \<Rightarrow> path
    \<Rightarrow> ('c, 'p, 's, 't, 'r) world
    \<Rightarrow> (error + ('c, 'p, 's) he) \<times> ('c, 'p, 's, 't, 'r) world" where
  "keygen_default L here w = keygen_if_missing L here w (2 ^ 15) 40 128"

definition load_for_server :: "path \<Rightarrow> ('c, 'p, 's, 't, 'r) world
    \<Rightarrow> error + ('c, 'p, 's) he" where
  "load_for_server here w =
     (case contextLoad w Pyfhel (ctx_path here) of
        Inl e \<Rightarrow> Inl e
      | Inr HE1 \<Rightarrow> restorepublicKey w HE1 (pub_path here))"

definition load_for_decrypt :: "path \<Rightarrow> ('c, 'p, 's, 't, 'r) world
    \<Rightarrow> error + ('c, 'p, 's) he" where
  "load_for_decrypt here w =
     (case contextLoad w Pyfhel (ctx_path here) of
        Inl e \<Rightarrow> Inl e
      | Inr HE1 \<Rightarrow>
     (case restorepublicKey w HE1 (pub_path here) of
        Inl e \<Rightarrow> Inl e
      | Inr HE2 \<Rightarrow> restoresecretKey w HE2 (sec_path here)))"

section \<open>Weight files\<close>

text \<open>
  \<^verbatim>\<open>pd.read_csv\<close> yields a data frame: the column names, each with its cells, in file
  order. A numeric column holds numbers, any other column holds strings.
\<close>

definition read_csv :: "('c, 'p, 's, 't, 'r) world \<Rightarrow> path \<Rightarrow> error + dataframe" where
  "read_csv w p =
     (case files w p of
        None \<Rightarrow> Inl (FileNotFoundError p)
      | Some (CsvFile df) \<Rightarrow> Inr df
      | Some _ \<Rightarrow> Inl (ReadError p))"

definition columns :: "dataframe \<Rightarrow> string list" where
  "columns df = map fst df"

definition column :: "dataframe \<Rightarrow> string \<Rightarrow> cell list" where
  "column df name = (case map_of df name of None \<Rightarrow> [] | Some cs \<Rightarrow> cs)"

definition find_coef_column :: "dataframe \<Rightarrow> error + string" where
  "find_coef_column df =
     (case List.find (\<lambda>cand. cand \<in> set (columns df))
             [''Coefficient'', ''coefficient'', ''coef'', ''Coef''] of
        None \<Rightarrow> Inl CoefficientColumnNotFound
      | Some cand \<Rightarrow> Inr cand)"

text \<open>\<^verbatim>\<open>str.lower\<close>, on ASCII letters.\<close>

definition lower_char :: "char \<Rightarrow> char" where
  "lower_char c =
     (case map_of (zip ''ABCDEFGHIJKLMNOPQRSTUVWXYZ'' ''abcdefghijklmnopqrstuvwxyz'') c of
        None \<Rightarrow> c
      | Some l \<Rightarrow> l)"

definition astype_str :: "('c, 'p, 's, 'm, 't, 'r) env \<Rightarrow> cell \<Rightarrow> string" where
  "astype_str L c = (case c of Str s \<Rightarrow> s | Num r \<Rightarrow> py_str L r)"

definition is_intercept :: "('c, 'p, 's, 'm, 't, 'r) env \<Rightarrow> cell \<Rightarrow> bool" where
  "is_intercept L c = (map lower_char (astype_str L c) = ''intercept'')"

definition to_float :: "('c, 'p, 's, 'm, 't, 'r) env \<Rightarrow> cell \<Rightarrow> error + real" where
  "to_float L c =
     (case c of
        Num r \<Rightarrow> Inr r
      | Str s \<Rightarrow> (case py_float L s of None \<Rightarrow> Inl FloatError | Some r \<Rightarrow> Inr r))"

fun astype_float :: "('c, 'p, 's, 'm, 't, 'r) env \<Rightarrow> cell list \<Rightarrow> error + real list" where
  "astype_float L [] = Inr []"
| "astype_float L (c # cs) =
     (case to_float L c of
        Inl e \<Rightarrow> Inl e
      | Inr r \<Rightarrow> (case astype_float L cs of Inl e \<Rightarrow> Inl e | Inr rs \<Rightarrow> Inr (r # rs)))"

text \<open>
  The two \<^verbatim>\<open>else\<close> branches of \<^verbatim>\<open>weights_csv_to_vector\<close>: the last row is the
  intercept. \<^verbatim>\<open>values[-1]\<close> of an empty column raises.
\<close>

definition last_row_intercept :: "('c, 'p, 's, 'm, 't, 'r) env \<Rightarrow> cell list
    \<Rightarrow> error + real list" where
  "last_row_intercept L vals =
     (if vals = [] then Inl IndexError
      else
        (case to_float L (last vals) of
           Inl e \<Rightarrow> Inl e
         | Inr intercept \<Rightarrow>
             (case astype_float L (butlast vals) of
                Inl e \<Rightarrow> Inl e
              | Inr coefs \<Rightarrow> Inr (coefs @ [intercept]))))"

definition weights_csv_to_vector :: "('c, 'p, 's, 'm, 't, 'r) env
    \<Rightarrow> ('c, 'p, 's, 't, 'r) world \<Rightarrow> path \<Rightarrow> error + real list" where
  "weights_csv_to_vector L w csv_path =
     (case read_csv w csv_path of
        Inl e \<Rightarrow> Inl e
      | Inr df \<Rightarrow>
     (case find_coef_column df of
        Inl e \<Rightarrow> Inl e
      | Inr coef_col \<Rightarrow>
          if ''Feature'' \<in> set (columns df) then
            let mask_int = map (is_intercept L) (column df ''Feature'');
                rows = zip mask_int (column df coef_col)
            in if True \<in> set mask_int then
                 (case map snd (filter fst rows) of
                    [] \<Rightarrow> Inl IndexError
                  | x # _ \<Rightarrow>
                      (case to_float L x of
                         Inl e \<Rightarrow> Inl e
                       | Inr intercept \<Rightarrow>
                           (case astype_float L (map snd (filter (\<lambda>row. \<not> fst row) rows)) of
                              Inl e \<Rightarrow> Inl e
                            | Inr coefs \<Rightarrow> Inr (coefs @ [intercept]))))
               else last_row_intercept L (column df coef_col)
          else last_row_intercept L (column df coef_col)))"

text \<open>Python's \<^verbatim>\<open>f"f{i}"\<close> prints \<open>i\<close> in decimal.\<close>

definition digit :: "nat \<Rightarrow> char" where
  "digit d = ''0123456789'' ! d"

fun format_nat :: "nat \<Rightarrow> string" where
  "format_nat i = (if 10 \<le> i then format_nat (i div 10) @ [digit (i mod 10)] else [digit i])"

definition weights_csv_feature_names :: "('c, 'p, 's, 'm, 't, 'r) env
    \<Rightarrow> ('c, 'p, 's, 't, 'r) world \<Rightarrow> path \<Rightarrow> error + string list" where
  "weights_csv_feature_names L w csv_path =
     (case read_csv w csv_path of
        Inl e \<Rightarrow> Inl e
      | Inr df \<Rightarrow>
     (case find_coef_column df of
        Inl e \<Rightarrow> Inl e
      | Inr coef_col \<Rightarrow>
          let features =
            (if ''Feature'' \<in> set (columns df) then
               let mask_int = map (is_intercept L) (column df ''Feature'')
               in if True \<in> set mask_int then
                    map (astype_str L)
                      (map snd (filter (\<lambda>row. \<not> fst row) (zip mask_int (column df ''Feature''))))
                  else butlast (map (astype_str L) (column df ''Feature''))
             else
               map (\<lambda>i. ''f'' @ format_nat i) [0 ..< length (column df coef_col) - 1])
          in Inr (features @ [''Intercept''])))"

section \<open>Directories\<close>

text \<open>
  \<^verbatim>\<open>os.makedirs(p, exist_ok=True)\<close> creates the directory, with its parents, unless it
  is there; it raises when the path holds a file.
\<close>

definition makedirs :: "('c, 'p, 's, 't, 'r) world \<Rightarrow> path
    \<Rightarrow> error + ('c, 'p, 's, 't, 'r) world" where
  "makedirs w p =
     (case files w p of
        None \<Rightarrow> Inr (put w p Directory)
      | Some Directory \<Rightarrow> Inr w
      | Some _ \<Rightarrow> Inl (FileExistsError p))"

definition ensure_dirs :: "path \<Rightarrow> ('c, 'p, 's, 't, 'r) world
    \<Rightarrow> (error + unit) \<times> ('c, 'p, 's, 't, 'r) world" where
  "ensure_dirs here w =
     (case makedirs w (KEY_DIR here) of
        Inl e \<Rightarrow> (Inl e, w)
      | Inr w1 \<Rightarrow>
     (case makedirs w1 (CT_DIR here) of
        Inl e \<Rightarrow> (Inl e, w1)
      | Inr w2 \<Rightarrow>
     (case makedirs w2 (GLOBAL_DIR here) of
        Inl e \<Rightarrow> (Inl e, w2)
      | Inr w3 \<Rightarrow> (Inr (), w3))))"

section \<open>Encryption\<close>

text \<open>
  With \<^verbatim>\<open>verify\<close> the function decrypts the ciphertext and prints a few entries, inside a
  \<^verbatim>\<open>try\<close> that catches every exception: neither the files nor the result depend on it.
\<close>

definition encrypt_weights_csv :: "('c, 'p, 's, 'm, 't, 'r) env \<Rightarrow> path
    \<Rightarrow> ('c, 'p, 's, 't, 'r) world \<Rightarrow> path \<Rightarrow> string \<Rightarrow> bool
    \<Rightarrow> (error + path) \<times> ('c, 'p, 's, 't, 'r) world" where
  "encrypt_weights_csv L here w weights_csv out_name verify =
     (case keygen_default L here w of
        (Inl e, w1) \<Rightarrow> (Inl e, w1)
      | (Inr HE, w1) \<Rightarrow>
     (case weights_csv_to_vector L w1 weights_csv of
        Inl e \<Rightarrow> (Inl e, w1)
      | Inr vec \<Rightarrow>
     (case encodeVec L HE vec of
        None \<Rightarrow> (Inl LibraryError, w1)
      | Some ptxt \<Rightarrow>
     (case encryptPtxt L HE ptxt (entropy w1) of
        None \<Rightarrow> (Inl LibraryError, w1)
      | Some (ctxt, r) \<Rightarrow>
          let out_path = join (CT_DIR here) out_name;
              w2 = w1\<lparr>entropy := r\<rparr>
          in (case save w2 out_path (CiphertextFile ctxt) of
                Inl e \<Rightarrow> (Inl e, w2)
              | Inr w3 \<Rightarrow> (Inr out_path, w3))))))"

section \<open>Aggregation\<close>

text \<open>
  The ciphertext objects of one call of \<^verbatim>\<open>aggregate_ciphertexts\<close> live in a store, a
  list indexed by the order of creation: object 0 is \<^verbatim>\<open>agg\<close>, loaded from the first
  path, and object \<open>i\<close> is the \<^verbatim>\<open>c\<close> loaded from path \<open>i\<close>. \<^verbatim>\<open>agg += c\<close> and
  \<^verbatim>\<open>agg *= k\<close> are the in-place operators of \<^verbatim>\<open>PyCtxt\<close>: they overwrite object 0.
\<close>

fun add_loop :: "('c, 'p, 's, 'm, 't, 'r) env \<Rightarrow> ('c, 'p, 's) he
    \<Rightarrow> ('c, 'p, 's, 't, 'r) world \<Rightarrow> path list \<Rightarrow> 't list \<Rightarrow> error + 't list" where
  "add_loop L HE w [] store = Inr store"
| "add_loop L HE w (p # ps) store =
     (case load_ctxt w p of
        Inl e \<Rightarrow> Inl e
      | Inr c \<Rightarrow>
          (case ctxt_add L HE (store ! 0) c of
             None \<Rightarrow> Inl LibraryError
           | Some s \<Rightarrow> add_loop L HE w ps ((store @ [c])[0 := s])))"

definition aggregate_objects :: "('c, 'p, 's, 'm, 't, 'r) env \<Rightarrow> ('c, 'p, 's) he
    \<Rightarrow> ('c, 'p, 's, 't, 'r) world \<Rightarrow> path list \<Rightarrow> bool \<Rightarrow> error + 't list" where
  "aggregate_objects L HE w ct_paths average =
     (case ct_paths of
        [] \<Rightarrow> Inl IndexError
      | p0 # ps \<Rightarrow>
     (case load_ctxt w p0 of
        Inl e \<Rightarrow> Inl e
      | Inr agg \<Rightarrow>
     (case add_loop L HE w ps [agg] of
        Inl e \<Rightarrow> Inl e
      | Inr store \<Rightarrow>
          if average then
            (case ctxt_mul L HE (store ! 0) (1 / real (length ct_paths)) of
               None \<Rightarrow> Inl LibraryError
             | Some s \<Rightarrow> Inr (store[0 := s]))
          else Inr store)))"

definition global_out :: "path \<Rightarrow> bool \<Rightarrow> path" where
  "global_out here average =
     join (GLOBAL_DIR here) (if average then ''global_avg.ct'' else ''global_sum.ct'')"

definition aggregate_ciphertexts :: "('c, 'p, 's, 'm, 't, 'r) env \<Rightarrow> path
    \<Rightarrow> ('c, 'p, 's, 't, 'r) world \<Rightarrow> path list \<Rightarrow> bool
    \<Rightarrow> (error + path) \<times> ('c, 'p, 's, 't, 'r) world" where
  "aggregate_ciphertexts L here w ct_paths average =
     (case load_for_server here w of
        Inl e \<Rightarrow> (Inl e, w)
      | Inr HE \<Rightarrow>
     (case aggregate_objects L HE w ct_paths average of
        Inl e \<Rightarrow> (Inl e, w)
      | Inr store \<Rightarrow>
          let out_path = global_out here average
          in (case save w out_path (CiphertextFile (store ! 0)) of
                Inl e \<Rightarrow> (Inl e, w)
              | Inr w1 \<Rightarrow> (Inr out_path, w1))))"

section \<open>Decryption\<close>

definition idx_csv :: "path \<Rightarrow> path" where
  "idx_csv here = join (GLOBAL_DIR here) ''global_weights.csv''"

definition named_csv :: "path \<Rightarrow> path" where
  "named_csv here = join (GLOBAL_DIR here) ''global_weights_named.csv''"

text \<open>The first three statements of \<^verbatim>\<open>decrypt_ciphertext_to_csv\<close>: the decrypted vector.\<close>

definition decrypt_vector :: "('c, 'p, 's, 'm, 't, 'r) env \<Rightarrow> path
    \<Rightarrow> ('c, 'p, 's, 't, 'r) world \<Rightarrow> path \<Rightarrow> error + real list" where
  "decrypt_vector L here w ct_path =
     (case load_for_decrypt here w of
        Inl e \<Rightarrow> Inl e
      | Inr HE \<Rightarrow>
     (case load_ctxt w ct_path of
        Inl e \<Rightarrow> Inl e
      | Inr ctxt \<Rightarrow>
     (case decryptFrac L HE ctxt of
        None \<Rightarrow> Inl LibraryError
      | Some vec \<Rightarrow> Inr vec)))"

definition index_frame :: "real list \<Rightarrow> dataframe" where
  "index_frame vec =
     [(''Index'', map (\<lambda>i. Num (real i)) [0 ..< length vec]), (''Value'', map Num vec)]"

definition named_frame :: "string list \<Rightarrow> real list \<Rightarrow> dataframe" where
  "named_frame canonical_features vec =
     [(''Feature'', map Str canonical_features), (''Coefficient'', map Num vec)]"

definition decrypt_ciphertext_to_csv :: "('c, 'p, 's, 'm, 't, 'r) env \<Rightarrow> path
    \<Rightarrow> ('c, 'p, 's, 't, 'r) world \<Rightarrow> path \<Rightarrow> string list
    \<Rightarrow> (error + path \<times> path) \<times> ('c, 'p, 's, 't, 'r) world" where
  "decrypt_ciphertext_to_csv L here w ct_path canonical_features =
     (case decrypt_vector L here w ct_path of
        Inl e \<Rightarrow> (Inl e, w)
      | Inr vec \<Rightarrow>
     (case save w (idx_csv here) (CsvFile (index_frame vec)) of
        Inl e \<Rightarrow> (Inl e, w)
      | Inr w1 \<Rightarrow>
          if length canonical_features \<noteq> length vec then
            (Inl (LengthMismatch (length canonical_features) (length vec)), w1)
          else
            (case save w1 (named_csv here) (CsvFile (named_frame canonical_features vec)) of
               Inl e \<Rightarrow> (Inl e, w1)
             | Inr w2 \<Rightarrow> (Inr (idx_csv here, named_csv here), w2))))"

section \<open>The command line\<close>

record args =
  h1 :: path
  h2 :: path
  do_sum :: bool
  verify :: bool

definition main :: "('c, 'p, 's, 'm, 't, 'r) env \<Rightarrow> path
    \<Rightarrow> ('c, 'p, 's, 't, 'r) world \<Rightarrow> args
    \<Rightarrow> (error + unit) \<times> ('c, 'p, 's, 't, 'r) world" where
  "main L here w a =
     (case ensure_dirs here w of
        (Inl e, w0) \<Rightarrow> (Inl e, w0)
      | (Inr _, w0) \<Rightarrow>
          if \<not> exists w0 (h1 a) then (Inl (FileNotFoundError (h1 a)), w0)
          else if \<not> exists w0 (h2 a) then (Inl (FileNotFoundError (h2 a)), w0)
          else
     (case encrypt_weights_csv L here w0 (h1 a) ''hospital1.ct'' (verify a) of
        (Inl e, w1) \<Rightarrow> (Inl e, w1)
      | (Inr ct1, w1) \<Rightarrow>
     (case encrypt_weights_csv L here w1 (h2 a) ''hospital2.ct'' (verify a) of
        (Inl e, w2) \<Rightarrow> (Inl e, w2)
      | (Inr ct2, w2) \<Rightarrow>
     (case weights_csv_to_vector L w2 (h1 a) of
        Inl e \<Rightarrow> (Inl e, w2)
      | Inr v1 \<Rightarrow>
     (case weights_csv_to_vector L w2 (h2 a) of
        Inl e \<Rightarrow> (Inl e, w2)
      | Inr v2 \<Rightarrow>
          if length v1 \<noteq> length v2 then
            (Inl (WeightLengthMismatch (length v1) (length v2)), w2)
          else
     (case aggregate_ciphertexts L here w2 [ct1, ct2] (\<not> do_sum a) of
        (Inl e, w3) \<Rightarrow> (Inl e, w3)
      | (Inr global_ct, w3) \<Rightarrow>
     (case weights_csv_feature_names L w3 (h1 a) of
        Inl e \<Rightarrow> (Inl e, w3)
      | Inr canonical_feats \<Rightarrow>
     (case decrypt_ciphertext_to_csv L here w3 global_ct canonical_feats of
        (Inl e, w4) \<Rightarrow> (Inl e, w4)
      | (Inr _, w4) \<Rightarrow> (Inr (), w4)))))))))"

section \<open>A stand-in library and sample files\<close>

text \<open>
  To run the model on concrete inputs: a library that keeps vectors in the clear (a
  ciphertext is the vector itself; a key is a number drawn from the random source), and
  the files of a deployment under \<^verbatim>\<open>/app\<close>.
\<close>

definition plain_env :: "(nat, nat, nat, real list, real list, nat) env" where
  "plain_env =
     \<lparr>contextGen = (\<lambda>scheme n scale sec. if scheme = ''CKKS'' then Some n else None),
      keyGen = (\<lambda>c r. ((r, r), Suc r)),
      encodeVec = (\<lambda>HE v. Some v),
      encryptPtxt = (\<lambda>HE m r. case he_public HE of None \<Rightarrow> None | Some _ \<Rightarrow> Some (m, Suc r)),
      decryptFrac = (\<lambda>HE t. case he_secret HE of None \<Rightarrow> None | Some _ \<Rightarrow> Some t),
      ctxt_add = (\<lambda>HE a b. if length a = length b then Some (map2 (+) a b) else None),
      ctxt_mul = (\<lambda>HE a k. Some (map ((*) k) a)),
      py_float = (\<lambda>s. None),
      py_str = (\<lambda>r. [])\<rparr>"

definition fresh_world :: "(nat, nat, nat, real list, nat) world" where
  "fresh_world =
     \<lparr>files = [''/app/keys'' \<mapsto> Directory, ''/app/ciphertexts'' \<mapsto> Directory,
               ''/app/global'' \<mapsto> Directory],
      entropy = 7\<rparr>"

definition keyed_world :: "(nat, nat, nat, real list, nat) world" where
  "keyed_world =
     \<lparr>files = [''/app/keys'' \<mapsto> Directory, ''/app/ciphertexts'' \<mapsto> Directory,
               ''/app/global'' \<mapsto> Directory,
               ''/app/keys/ckks_context.bin'' \<mapsto> ContextFile 32768,
               ''/app/keys/ckks_public.key'' \<mapsto> PublicKeyFile 7,
               ''/app/keys/ckks_secret.key'' \<mapsto> SecretKeyFile 7],
      entropy = 8\<rparr>"

definition demo_keys :: "(nat, nat, nat) he" where
  "demo_keys = \<lparr>he_context = Some 32768, he_public = Some 7, he_secret = Some 7\<rparr>"

definition server_keys :: "(nat, nat, nat) he" where
  "server_keys = \<lparr>he_context = Some 32768, he_public = Some 7, he_secret = None\<rparr>"

definition ct_world :: "(nat, nat, nat, real list, nat) world" where
  "ct_world =
     put (put keyed_world ''/app/ciphertexts/hospital1.ct'' (CiphertextFile [1, 2, 1 / 2]))
       ''/app/ciphertexts/hospital2.ct'' (CiphertextFile [3, - 1, 3 / 2])"

definition avg_world :: "(nat, nat, nat, real list, nat) world" where
  "avg_world = put keyed_world ''/app/global/global_avg.ct'' (CiphertextFile [2, 1 / 2, 1])"

text \<open>The files of a decrypting party that has no \<^verbatim>\<open>global\<close> directory yet.\<close>

definition party_world :: "(nat, nat, nat, real list, nat) world" where
  "party_world =
     \<lparr>files = [''/app/keys'' \<mapsto> Directory,
               ''/app/keys/ckks_context.bin'' \<mapsto> ContextFile 32768,
               ''/app/keys/ckks_public.key'' \<mapsto> PublicKeyFile 7,
               ''/app/keys/ckks_secret.key'' \<mapsto> SecretKeyFile 7,
               ''/app/inbox.ct'' \<mapsto> CiphertextFile [2, 1 / 2, 1]],
      entropy = 8\<rparr>"

definition h1_frame :: dataframe where
  "h1_frame =
     [(''Feature'', [Str ''age'', Str ''bmi'', Str ''Intercept'']),
      (''Coefficient'', [Num (1 / 2), Num (- 1), Num 2])]"

definition h2_frame :: dataframe where
  "h2_frame =
     [(''Feature'', [Str ''age'', Str ''Intercept'']),
      (''Coefficient'', [Num 3, Num 1])]"

definition h3_frame :: dataframe where
  "h3_frame =
     [(''Feature'', [Str ''age'', Str ''bmi'', Str ''Intercept'']),
      (''Coefficient'', [Num (3 / 2), Num 3, Num 1])]"

definition data_world :: "(nat, nat, nat, real list, nat) world" where
  "data_world =
     \<lparr>files = [''/data/h1.csv'' \<mapsto> CsvFile h1_frame, ''/data/h2.csv'' \<mapsto> CsvFile h2_frame],
      entropy = 7\<rparr>"

definition pair_world :: "(nat, nat, nat, real list, nat) world" where
  "pair_world =
     \<lparr>files = [''/data/h1.csv'' \<mapsto> CsvFile h1_frame, ''/data/h2.csv'' \<mapsto> CsvFile h3_frame],
      entropy = 7\<rparr>"

definition demo_args :: args where
  "demo_args = \<lparr>h1 = ''/data/h1.csv'', h2 = ''/data/h2.csv'', do_sum = False, verify = False\<rparr>"

section \<open>States reached before the aggregation\<close>

text \<open>
  \<open>only_adds here w w'\<close>: from \<open>w\<close> to \<open>w'\<close> no path has received a CSV file, and the
  aggregate files are as they were.
\<close>

definition only_adds :: "path \<Rightarrow> ('c, 'p, 's, 't, 'r) world \<Rightarrow> ('c, 'p, 's, 't, 'r) world
    \<Rightarrow> bool" where
  "only_adds here w w' =
     ((\<forall>p. files w' p = files w p \<or> (\<exists>f. files w' p = Some f \<and> (\<forall>df. f \<noteq> CsvFile df)))
      \<and> (\<forall>b. files w' (global_out here b) = files w (global_out here b)))"

section \<open>Paths of the program\<close>

text \<open>
  Every path of the program is \<^verbatim>\<open>HERE\<close>, a separator, and a fixed relative name, so the
  paths are pairwise distinct whatever \<^verbatim>\<open>HERE\<close> is.
\<close>

lemma join_rel: "take 1 b \<noteq> ''/'' \<Longrightarrow> join a b = a @ sep a @ b"
  by (simp add: join_def sep_def)

lemma KEY_DIR_eq: "KEY_DIR here = here @ sep here @ ''keys''"
  by (simp add: KEY_DIR_def join_rel)
lemma CT_DIR_eq: "CT_DIR here = here @ sep here @ ''ciphertexts''"
  by (simp add: CT_DIR_def join_rel)
lemma GLOBAL_DIR_eq: "GLOBAL_DIR here = here @ sep here @ ''global''"
  by (simp add: GLOBAL_DIR_def join_rel)

lemma join_lit: "b \<noteq> [] \<Longrightarrow> last b \<noteq> CHR ''/'' \<Longrightarrow> take 1 c \<noteq> ''/'' \<Longrightarrow>
  join (here @ s @ b) c = here @ s @ b @ ''/'' @ c"
  by (simp add: join_def)

lemma ctx_path_eq: "ctx_path here = here @ sep here @ ''keys/ckks_context.bin''"
  by (simp add: ctx_path_def KEY_DIR_eq join_lit)
lemma pub_path_eq: "pub_path here = here @ sep here @ ''keys/ckks_public.key''"
  by (simp add: pub_path_def KEY_DIR_eq join_lit)
lemma sec_path_eq: "sec_path here = here @ sep here @ ''keys/ckks_secret.key''"
  by (simp add: sec_path_def KEY_DIR_eq join_lit)
lemma global_out_eq:
  "global_out here average =
     here @ sep here @ (if average then ''global/global_avg.ct'' else ''global/global_sum.ct'')"
  by (simp add: global_out_def GLOBAL_DIR_eq join_lit)
lemma idx_csv_eq: "idx_csv here = here @ sep here @ ''global/global_weights.csv''"
  by (simp add: idx_csv_def GLOBAL_DIR_eq join_lit)
lemma named_csv_eq: "named_csv here = here @ sep here @ ''global/global_weights_named.csv''"
  by (simp add: named_csv_def GLOBAL_DIR_eq join_lit)
lemma ct_path_eq:
  "take 1 n \<noteq> ''/'' \<Longrightarrow> join (CT_DIR here) n = here @ sep here @ ''ciphertexts/'' @ n"
  by (simp add: CT_DIR_eq join_lit)

lemmas path_eqs = KEY_DIR_eq CT_DIR_eq GLOBAL_DIR_eq ctx_path_eq pub_path_eq sec_path_eq
  global_out_eq idx_csv_eq named_csv_eq

lemma key_paths_distinct:
  "ctx_path here \<noteq> pub_path here" "ctx_path here \<noteq> sec_path here"
  "pub_path here \<noteq> sec_path here"
  by (simp_all add: path_eqs)


lemma dirname_lit:
  assumes "CHR ''/'' \<notin> set n" and "d \<noteq> []" and "last d \<noteq> CHR ''/''"
  shows "dirname (a @ d @ ''/'' @ n) = a @ d"
proof -
  have drop: "dropWhile (\<lambda>c. c \<noteq> CHR ''/'') (rev n @ CHR ''/'' # rev d @ rev a)
      = CHR ''/'' # rev d @ rev a"
    using assms(1) by (auto simp: dropWhile_append3 dropWhile_eq_Nil_conv)
  have head: "rev (dropWhile (\<lambda>c. c \<noteq> CHR ''/'') (rev (a @ d @ ''/'' @ n))) = a @ d @ ''/''"
    using drop by simp
  obtain x xs where d: "rev d = x # xs" and x: "x \<noteq> CHR ''/''"
    using assms(2,3) by (cases d rule: rev_cases) auto
  have ne: "filter (\<lambda>c. c \<noteq> CHR ''/'') (a @ d @ ''/'') \<noteq> []"
  proof -
    from d have "x \<in> set d" by (metis list.set_intros(1) set_rev)
    with x show ?thesis by (auto simp: filter_empty_conv)
  qed
  have strip: "rev (dropWhile (\<lambda>c. c = CHR ''/'') (rev (a @ d @ ''/''))) = a @ d"
    using d x by (simp add: rev_swap [symmetric])
  show ?thesis
    unfolding dirname_def Let_def head using ne strip by simp
qed

lemma parent_eqs:
  "dirname (ctx_path here) = KEY_DIR here" "dirname (pub_path here) = KEY_DIR here"
  "dirname (sec_path here) = KEY_DIR here"
  "dirname (global_out here average) = GLOBAL_DIR here"
  "dirname (idx_csv here) = GLOBAL_DIR here" "dirname (named_csv here) = GLOBAL_DIR here"
  using dirname_lit[of "''ckks_context.bin''" "''keys''" "here @ sep here"]
    dirname_lit[of "''ckks_public.key''" "''keys''" "here @ sep here"]
    dirname_lit[of "''ckks_secret.key''" "''keys''" "here @ sep here"]
    dirname_lit[of "''global_avg.ct''" "''global''" "here @ sep here"]
    dirname_lit[of "''global_sum.ct''" "''global''" "here @ sep here"]
    dirname_lit[of "''global_weights.csv''" "''global''" "here @ sep here"]
    dirname_lit[of "''global_weights_named.csv''" "''global''" "here @ sep here"]
  by (simp_all add: path_eqs)

lemma dir_nonroot:
  "filter (\<lambda>c. c \<noteq> CHR ''/'') (KEY_DIR here) \<noteq> []"
  "filter (\<lambda>c. c \<noteq> CHR ''/'') (GLOBAL_DIR here) \<noteq> []"
  by (simp_all add: path_eqs)

lemma demo_paths:
  "ctx_path ''/app'' = ''/app/keys/ckks_context.bin''"
  "pub_path ''/app'' = ''/app/keys/ckks_public.key''"
  "sec_path ''/app'' = ''/app/keys/ckks_secret.key''"
  "KEY_DIR ''/app'' = ''/app/keys''" "CT_DIR ''/app'' = ''/app/ciphertexts''"
  "GLOBAL_DIR ''/app'' = ''/app/global''"
  "global_out ''/app'' True = ''/app/global/global_avg.ct''"
  "global_out ''/app'' False = ''/app/global/global_sum.ct''"
  "idx_csv ''/app'' = ''/app/global/global_weights.csv''"
  "named_csv ''/app'' = ''/app/global/global_weights_named.csv''"
  by (simp_all add: path_eqs sep_def)

lemma demo_parents:
  "dirname ''/app/keys/ckks_context.bin'' = ''/app/keys''"
  "dirname ''/app/keys/ckks_public.key'' = ''/app/keys''"
  "dirname ''/app/keys/ckks_secret.key'' = ''/app/keys''"
  "dirname ''/app/global/global_avg.ct'' = ''/app/global''"
  "dirname ''/app/global/global_sum.ct'' = ''/app/global''"
  "dirname ''/app/global/global_weights.csv'' = ''/app/global''"
  "dirname ''/app/global/global_weights_named.csv'' = ''/app/global''"
  using parent_eqs[of "''/app''"] parent_eqs(4)[of "''/app''" True]
    parent_eqs(4)[of "''/app''" False]
  by (simp_all add: demo_paths)

lemma demo_ct_parents:
  "join ''/app/ciphertexts'' ''hospital1.ct'' = ''/app/ciphertexts/hospital1.ct''"
  "join ''/app/ciphertexts'' ''hospital2.ct'' = ''/app/ciphertexts/hospital2.ct''"
  "dirname ''/app/ciphertexts/hospital1.ct'' = ''/app/ciphertexts''"
  "dirname ''/app/ciphertexts/hospital2.ct'' = ''/app/ciphertexts''"
  using dirname_lit[of "''hospital1.ct''" "''ciphertexts''" "''/app/''"]
    dirname_lit[of "''hospital2.ct''" "''ciphertexts''" "''/app/''"]
  by (simp_all add: join_def)

section \<open>Key files\<close>

lemma files_put: "files (put w p f) = (files w)(p \<mapsto> f)"
  by (simp add: put_def)

lemma save_Inr: "save w p f = Inr w' \<Longrightarrow> w' = put w p f"
  by (auto simp: save_def split: if_splits)

lemma save_Inl: "save w p f = Inl e \<Longrightarrow> e = OSError p"
  by (auto simp: save_def split: if_splits)

lemma save_ok:
  "is_dir w (dirname p) \<Longrightarrow> files w p \<noteq> Some Directory \<Longrightarrow> save w p f = Inr (put w p f)"
  by (simp add: save_def)

lemma contextLoad_Inr:
  "contextLoad w HE p = Inr HE' \<longleftrightarrow> (\<exists>c. files w p = Some (ContextFile c) \<and> HE' = HE\<lparr>he_context := Some c\<rparr>)"
  by (auto simp: contextLoad_def split: option.splits content.splits)

lemma restorepublicKey_Inr:
  "restorepublicKey w HE p = Inr HE' \<longleftrightarrow> (\<exists>k. files w p = Some (PublicKeyFile k) \<and> HE' = HE\<lparr>he_public := Some k\<rparr>)"
  by (auto simp: restorepublicKey_def split: option.splits content.splits)

lemma restoresecretKey_Inr:
  "restoresecretKey w HE p = Inr HE' \<longleftrightarrow> (\<exists>k. files w p = Some (SecretKeyFile k) \<and> HE' = HE\<lparr>he_secret := Some k\<rparr>)"
  by (auto simp: restoresecretKey_def split: option.splits content.splits)

lemma keygen_loads_unchanged:
  "exists w (ctx_path here) \<and> exists w (pub_path here) \<and> exists w (sec_path here) \<Longrightarrow>
   snd (keygen_if_missing L here w n sb sec) = w"
  by (simp add: keygen_if_missing_def split: sum.splits)

lemma keygen_load_all:
  assumes "files w (ctx_path here) = Some (ContextFile c)"
    and "files w (pub_path here) = Some (PublicKeyFile pk)"
    and "files w (sec_path here) = Some (SecretKeyFile sk)"
  shows "keygen_if_missing L here w n sb sec =
    (Inr \<lparr>he_context = Some c, he_public = Some pk, he_secret = Some sk\<rparr>, w)"
  using assms
  by (simp add: keygen_if_missing_def exists_def contextLoad_def restorepublicKey_def
      restoresecretKey_def Pyfhel_def)

lemma keygen_generated:
  assumes "keygen_if_missing L here w n sb sec = (Inr HE, w')"
    and "\<not> (exists w (ctx_path here) \<and> exists w (pub_path here) \<and> exists w (sec_path here))"
  shows "\<exists>c pk sk r. HE = \<lparr>he_context = Some c, he_public = Some pk, he_secret = Some sk\<rparr>
      \<and> w' = put (put (put (w\<lparr>entropy := r\<rparr>) (ctx_path here) (ContextFile c))
                 (pub_path here) (PublicKeyFile pk)) (sec_path here) (SecretKeyFile sk)"
proof (cases "contextGen L ''CKKS'' n (2 ^ sb) sec")
  case None
  with assms show ?thesis by (auto simp: keygen_if_missing_def)
next
  case (Some c)
  obtain pk sk r where kg: "keyGen L c (entropy w) = ((pk, sk), r)"
    by (metis prod.exhaust)
  let ?w0 = "w\<lparr>entropy := r\<rparr>"
  from assms Some kg obtain w1 w2 where
    "save ?w0 (ctx_path here) (ContextFile c) = Inr w1"
    "save w1 (pub_path here) (PublicKeyFile pk) = Inr w2"
    "save w2 (sec_path here) (SecretKeyFile sk) = Inr w'"
    and HE: "HE = \<lparr>he_context = Some c, he_public = Some pk, he_secret = Some sk\<rparr>"
    by (auto simp: keygen_if_missing_def Let_def split: sum.splits)
  then have "w' = put (put (put ?w0 (ctx_path here) (ContextFile c))
                 (pub_path here) (PublicKeyFile pk)) (sec_path here) (SecretKeyFile sk)"
    by (auto dest!: save_Inr)
  with HE show ?thesis by blast
qed

lemma keygen_Inr_files:
  assumes "keygen_if_missing L here w n sb sec = (Inr HE, w')"
  shows "\<exists>c pk sk. files w' (ctx_path here) = Some (ContextFile c)
      \<and> files w' (pub_path here) = Some (PublicKeyFile pk)
      \<and> files w' (sec_path here) = Some (SecretKeyFile sk)
      \<and> HE = \<lparr>he_context = Some c, he_public = Some pk, he_secret = Some sk\<rparr>"
proof (cases "exists w (ctx_path here) \<and> exists w (pub_path here) \<and> exists w (sec_path here)")
  case True
  with assms show ?thesis
    by (auto simp: keygen_if_missing_def contextLoad_Inr restorepublicKey_Inr
        restoresecretKey_Inr Pyfhel_def split: sum.splits)
next
  case False
  from keygen_generated[OF assms False] key_paths_distinct[of here] show ?thesis
    by (auto simp: files_put)
qed

lemma keygen_stable:
  assumes "keygen_if_missing L here w n sb sec = (Inr HE, w')"
  shows "keygen_if_missing L here w' n' sb' sec' = (Inr HE, w')"
  using keygen_Inr_files[OF assms] by (auto simp: keygen_load_all)


lemma keygen_fresh:
  "keygen_default plain_env ''/app'' fresh_world = (Inr demo_keys, keyed_world)"
  by (simp add: keygen_default_def keygen_if_missing_def demo_paths demo_parents exists_def
      fresh_world_def plain_env_def save_def is_dir_def put_def keyed_world_def demo_keys_def)

text \<open>
  C9. \<^verbatim>\<open>keygen_if_missing\<close> writes only when one of the three files (context, public
  key, secret key) is missing: when all three exist, the call leaves the files (and the
  random source) as they were. A call that returns a key set leaves it on disk, so every
  later call that finds these three files, in this run or another, with whatever
  parameters, returns the same context and key pair and writes nothing.
\<close>

theorem keygen_if_missing_same_keys:
  "(exists w (ctx_path here) \<and> exists w (pub_path here) \<and> exists w (sec_path here)
      \<longrightarrow> snd (keygen_if_missing L here w n sb sec) = w)
   \<and> (keygen_if_missing L here w n sb sec = (Inr HE, w')
        \<and> files w'' (ctx_path here) = files w' (ctx_path here)
        \<and> files w'' (pub_path here) = files w' (pub_path here)
        \<and> files w'' (sec_path here) = files w' (sec_path here)
      \<longrightarrow> keygen_if_missing L' here w'' n' sb' sec' = (Inr HE, w''))"
proof (intro conjI impI)
  assume "exists w (ctx_path here) \<and> exists w (pub_path here) \<and> exists w (sec_path here)"
  then show "snd (keygen_if_missing L here w n sb sec) = w"
    by (rule keygen_loads_unchanged)
next
  assume a: "keygen_if_missing L here w n sb sec = (Inr HE, w')
        \<and> files w'' (ctx_path here) = files w' (ctx_path here)
        \<and> files w'' (pub_path here) = files w' (pub_path here)
        \<and> files w'' (sec_path here) = files w' (sec_path here)"
  then have k: "keygen_if_missing L here w n sb sec = (Inr HE, w')" by simp
  from keygen_Inr_files[OF k] a
  show "keygen_if_missing L' here w'' n' sb' sec' = (Inr HE, w'')"
    by (auto simp: keygen_load_all)
qed

theorem keygen_if_missing_same_keys_witness:
  "keygen_default plain_env ''/app'' fresh_world = (Inr demo_keys, keyed_world)
   \<and> exists keyed_world (ctx_path ''/app'') \<and> exists keyed_world (pub_path ''/app'')
   \<and> exists keyed_world (sec_path ''/app'')
   \<and> snd (keygen_if_missing plain_env ''/app'' keyed_world (2 ^ 15) 40 128) = keyed_world
   \<and> keygen_if_missing plain_env ''/app'' keyed_world 4096 30 192 = (Inr demo_keys, keyed_world)"
proof -
  have gen: "keygen_if_missing plain_env ''/app'' fresh_world (2 ^ 15) 40 128
      = (Inr demo_keys, keyed_world)"
    using keygen_fresh by (simp add: keygen_default_def)
  have ex: "exists keyed_world (ctx_path ''/app'') \<and> exists keyed_world (pub_path ''/app'')
      \<and> exists keyed_world (sec_path ''/app'')"
    by (simp add: exists_def keyed_world_def demo_paths)
  from keygen_if_missing_same_keys
    [of keyed_world "''/app''" plain_env "2 ^ 15" 40 128 demo_keys keyed_world keyed_world
      plain_env 4096 30 192]
    keygen_if_missing_same_keys
    [of fresh_world "''/app''" plain_env "2 ^ 15" 40 128 demo_keys keyed_world keyed_world
      plain_env 4096 30 192]
    gen ex keygen_fresh
  show ?thesis by simp
qed

section \<open>The server side\<close>

lemma put_put: "put (put w p f) p g = put w p g"
  by (simp add: put_def)

lemma is_dir_put_secret:
  "is_dir (put w p (SecretKeyFile k)) d = is_dir (put w p (SecretKeyFile k')) d"
  by (simp add: is_dir_def files_put)

lemma save_put_secret:
  assumes "q \<noteq> p"
  shows "save (put w p (SecretKeyFile k)) q f
     = map_sum id (\<lambda>w'. put w' p (SecretKeyFile k)) (save (put w p (SecretKeyFile k')) q f)"
proof -
  have twist: "put (put (put w p (SecretKeyFile k')) q f) p (SecretKeyFile k)
      = put (put w p (SecretKeyFile k)) q f"
    using assms by (simp add: put_def fun_upd_twist)
  show ?thesis
    unfolding save_def is_dir_put_secret[of w p k _ k']
    using assms by (simp add: files_put twist)
qed

lemma sec_not_key:
  "sec_path here \<noteq> ctx_path here" "sec_path here \<noteq> pub_path here"
  "sec_path here \<noteq> global_out here average"
  by (simp_all add: path_eqs)

lemma load_for_server_put_sec:
  "load_for_server here (put w (sec_path here) f) = load_for_server here w"
  using sec_not_key(1,2)[of here]
  by (simp add: load_for_server_def contextLoad_def restorepublicKey_def files_put
      fun_upd_apply split: sum.splits)

lemma load_for_server_no_secret:
  "map_sum id he_secret (load_for_server here w) = map_sum id (\<lambda>HE. None) (load_for_server here w)"
proof (cases "load_for_server here w")
  case (Inl e)
  then show ?thesis by simp
next
  case (Inr HE)
  then have "he_secret HE = None"
    by (auto simp: load_for_server_def contextLoad_Inr restorepublicKey_Inr Pyfhel_def
        split: sum.splits)
  with Inr show ?thesis by simp
qed

lemma load_ctxt_put_secret:
  "load_ctxt (put w p (SecretKeyFile k)) q = (if q = p then Inl (ReadError q) else load_ctxt w q)"
  by (simp add: load_ctxt_def files_put)

lemma add_loop_secret:
  "add_loop L HE (put w p (SecretKeyFile k1)) ps store
     = add_loop L HE (put w p (SecretKeyFile k2)) ps store"
  by (induction ps arbitrary: store)
     (simp_all add: load_ctxt_put_secret split: sum.splits option.splits)

lemma aggregate_objects_secret:
  "aggregate_objects L HE (put w p (SecretKeyFile k1)) ps average
     = aggregate_objects L HE (put w p (SecretKeyFile k2)) ps average"
proof (cases ps)
  case Nil
  then show ?thesis by (simp add: aggregate_objects_def)
next
  case (Cons p0 ps')
  show ?thesis
    unfolding aggregate_objects_def Cons list.case load_ctxt_put_secret
      add_loop_secret[of L HE w p k1 ps' _ k2] ..
qed

lemma aggregate_ciphertexts_secret:
  "aggregate_ciphertexts L here (put w (sec_path here) (SecretKeyFile k1)) ps average =
     (case aggregate_ciphertexts L here (put w (sec_path here) (SecretKeyFile k2)) ps average of
        (r, w') \<Rightarrow> (r, put w' (sec_path here) (SecretKeyFile k1)))"
proof -
  let ?w1 = "put w (sec_path here) (SecretKeyFile k1)"
  let ?w2 = "put w (sec_path here) (SecretKeyFile k2)"
  have objs: "aggregate_objects L HE ?w1 ps average = aggregate_objects L HE ?w2 ps average" for HE
    by (rule aggregate_objects_secret)
  have undo: "put ?w2 (sec_path here) (SecretKeyFile k1) = ?w1"
    by (rule put_put)
  have out: "save ?w1 (global_out here average) f
      = map_sum id (\<lambda>w'. put w' (sec_path here) (SecretKeyFile k1))
          (save ?w2 (global_out here average) f)" for f
    using sec_not_key(3)[of here average] by (intro save_put_secret) simp
  show ?thesis
  proof (cases "load_for_server here w")
    case (Inl e)
    then show ?thesis
      by (simp add: aggregate_ciphertexts_def load_for_server_put_sec undo)
  next
    case HE: (Inr HE)
    show ?thesis
    proof (cases "aggregate_objects L HE ?w2 ps average")
      case (Inl e)
      with HE show ?thesis
        by (simp add: aggregate_ciphertexts_def load_for_server_put_sec objs undo)
    next
      case (Inr store)
      with HE show ?thesis
        by (cases "save ?w2 (global_out here average) (CiphertextFile (store ! 0))")
           (simp_all add: aggregate_ciphertexts_def load_for_server_put_sec objs undo out Let_def)
    qed
  qed
qed

lemma add_loop_decrypt:
  "add_loop (L\<lparr>decryptFrac := d\<rparr>) HE w ps store = add_loop L HE w ps store"
  by (induction ps arbitrary: store) (simp_all split: sum.splits option.splits)

lemma aggregate_ciphertexts_no_decrypt:
  "aggregate_ciphertexts (L\<lparr>decryptFrac := d\<rparr>) here w ps average
     = aggregate_ciphertexts L here w ps average"
proof -
  have "aggregate_objects (L\<lparr>decryptFrac := d\<rparr>) HE w ps average
      = aggregate_objects L HE w ps average" for HE
    by (cases ps) (simp_all add: aggregate_objects_def add_loop_decrypt split: sum.splits)
  then show ?thesis
    by (simp add: aggregate_ciphertexts_def split: sum.splits)
qed

text \<open>
  What the aggregation of two files computes with the library: their sum, and for the
  average the sum times \<open>1/2\<close>. How close its decryption is to the sum or mean of the
  weight vectors is a property of the CKKS arithmetic inside the library.
\<close>

lemma aggregate_two_paths:
  assumes "load_for_server here w = Inr HE"
    and "load_ctxt w p = Inr c" and "load_ctxt w q = Inr c'"
    and "ctxt_add L HE c c' = Some s"
  shows "aggregate_ciphertexts L here w [p, q] False
      = (case save w (global_out here False) (CiphertextFile s) of
           Inl e \<Rightarrow> (Inl e, w)
         | Inr w' \<Rightarrow> (Inr (global_out here False), w'))"
    and "ctxt_mul L HE s (1 / 2) = Some m \<Longrightarrow>
      aggregate_ciphertexts L here w [p, q] True
      = (case save w (global_out here True) (CiphertextFile m) of
           Inl e \<Rightarrow> (Inl e, w)
         | Inr w' \<Rightarrow> (Inr (global_out here True), w'))"
  using assms by (simp_all add: aggregate_ciphertexts_def aggregate_objects_def Let_def)

lemma add_loop_tail:
  "add_loop L HE w ps store = Inr store' \<Longrightarrow> store \<noteq> [] \<Longrightarrow>
   \<exists>cs. tl store' = tl store @ cs \<and> store' \<noteq> [] \<and> map (load_ctxt w) ps = map Inr cs"
proof (induction ps arbitrary: store)
  case Nil
  then show ?case by simp
next
  case (Cons p ps)
  from Cons.prems obtain c s where c: "load_ctxt w p = Inr c"
    and s: "ctxt_add L HE (store ! 0) c = Some s"
    and rest: "add_loop L HE w ps ((store @ [c])[0 := s]) = Inr store'"
    by (auto split: sum.splits option.splits)
  from Cons.prems(2) have tl: "tl ((store @ [c])[0 := s]) = tl store @ [c]"
    by (cases store) simp_all
  from Cons.IH[OF rest] Cons.prems(2) tl c show ?case
    by auto
qed

lemma aggregate_objects_tail:
  assumes "aggregate_objects L HE w ps average = Inr store"
  shows "length store = length ps \<and> map (load_ctxt w) (tl ps) = map Inr (tl store)"
proof -
  from assms obtain p0 ps' agg st where ps: "ps = p0 # ps'"
    and loop: "add_loop L HE w ps' [agg] = Inr st"
    and st: "store = st \<or> (\<exists>s. store = st[0 := s])"
    by (auto simp: aggregate_objects_def split: list.splits sum.splits if_splits option.splits)
  from add_loop_tail[OF loop] obtain cs where cs: "tl st = cs" "st \<noteq> []"
    "map (load_ctxt w) ps' = map Inr cs"
    by auto
  from st have tl: "tl store = tl st" and len: "length store = length st"
    by (cases st; auto)+
  from cs have "length st = Suc (length cs)" by (cases st) auto
  moreover from cs(3) have "length ps' = length cs"
    by (metis length_map)
  ultimately show ?thesis using ps tl len cs by simp
qed

lemma aggregate_ciphertexts_frame:
  "p \<noteq> global_out here average \<Longrightarrow>
   files (snd (aggregate_ciphertexts L here w ps average)) p = files w p"
  by (auto simp: aggregate_ciphertexts_def files_put Let_def dest!: save_Inr
      split: sum.splits)

lemma demo_load:
  "load_ctxt ct_world ''/app/ciphertexts/hospital1.ct'' = Inr [1, 2, 1 / 2]"
  "load_ctxt ct_world ''/app/ciphertexts/hospital2.ct'' = Inr [3, - 1, 3 / 2]"
  by (simp_all add: load_ctxt_def ct_world_def files_put)

lemma demo_objects:
  "aggregate_objects plain_env server_keys ct_world
     [''/app/ciphertexts/hospital1.ct'', ''/app/ciphertexts/hospital2.ct''] True
   = Inr [[2, 1 / 2, 1], [3, - 1, 3 / 2]]"
  by (simp add: aggregate_objects_def demo_load plain_env_def)

lemma demo_server: "load_for_server ''/app'' ct_world = Inr server_keys"
  by (simp add: load_for_server_def contextLoad_def restorepublicKey_def demo_paths
      ct_world_def keyed_world_def files_put Pyfhel_def server_keys_def)

lemma demo_aggregate:
  "aggregate_ciphertexts plain_env ''/app'' ct_world
     [''/app/ciphertexts/hospital1.ct'', ''/app/ciphertexts/hospital2.ct''] True
   = (Inr ''/app/global/global_avg.ct'',
      put ct_world ''/app/global/global_avg.ct'' (CiphertextFile [2, 1 / 2, 1]))"
proof -
  have "save ct_world ''/app/global/global_avg.ct'' (CiphertextFile [2, 1 / 2, 1])
      = Inr (put ct_world ''/app/global/global_avg.ct'' (CiphertextFile [2, 1 / 2, 1]))"
    by (simp add: save_def demo_parents is_dir_def ct_world_def keyed_world_def files_put)
  then show ?thesis
    by (simp add: aggregate_ciphertexts_def demo_server demo_objects demo_paths Let_def)
qed

text \<open>
  C4. The server side never reads the secret key and never decrypts.
  \<^verbatim>\<open>load_for_server\<close> returns the same whatever the secret-key path holds, and the
  object it returns has no secret key. \<^verbatim>\<open>aggregate_ciphertexts\<close> does not depend on
  the library's decryption, and for any two secret keys on disk it returns the same
  result and writes the same aggregate: the two final states differ only in the
  secret-key file they started with.
\<close>

theorem server_path_ignores_secret_key:
  "load_for_server here (put w (sec_path here) f) = load_for_server here w
   \<and> map_sum id he_secret (load_for_server here w)
       = map_sum id (\<lambda>HE. None) (load_for_server here w)
   \<and> aggregate_ciphertexts (L\<lparr>decryptFrac := d\<rparr>) here w ps average
       = aggregate_ciphertexts L here w ps average
   \<and> aggregate_ciphertexts L here (put w (sec_path here) (SecretKeyFile k)) ps average
       = (case aggregate_ciphertexts L here (put w (sec_path here) (SecretKeyFile k')) ps average of
            (r, w') \<Rightarrow> (r, put w' (sec_path here) (SecretKeyFile k)))"
  by (intro conjI load_for_server_put_sec load_for_server_no_secret
      aggregate_ciphertexts_no_decrypt aggregate_ciphertexts_secret)

theorem server_path_ignores_secret_key_witness:
  "aggregate_ciphertexts plain_env ''/app''
     (put ct_world (sec_path ''/app'') (SecretKeyFile 99))
     [''/app/ciphertexts/hospital1.ct'', ''/app/ciphertexts/hospital2.ct''] True
   = (Inr ''/app/global/global_avg.ct'',
      put (put ct_world ''/app/global/global_avg.ct'' (CiphertextFile [2, 1 / 2, 1]))
        (sec_path ''/app'') (SecretKeyFile 99))"
proof -
  have same: "put ct_world (sec_path ''/app'') (SecretKeyFile 7) = ct_world"
    by (simp add: put_def ct_world_def keyed_world_def demo_paths fun_upd_twist)
  from server_path_ignores_secret_key
    [where here = "''/app''" and w = ct_world and L = plain_env and k = 99 and k' = 7
      and ps = "[''/app/ciphertexts/hospital1.ct'', ''/app/ciphertexts/hospital2.ct'']"
      and average = True]
  show ?thesis
    by (simp add: same demo_aggregate)
qed

text \<open>
  C8, as stated: after \<^verbatim>\<open>aggregate_ciphertexts\<close> has combined the ciphertexts, every
  ciphertext object still holds the value loaded from its file. It fails for the first
  object: \<^verbatim>\<open>agg\<close> is the object loaded from the first path, and \<^verbatim>\<open>agg += c\<close>,
  \<^verbatim>\<open>agg *= 1/n\<close> overwrite it. With hospital 1 holding \<open>[1, 2, 0.5]\<close> and hospital 2
  \<open>[3, -1, 1.5]\<close>, object 0 ends as \<open>[2, 0.5, 1]\<close>.
\<close>

theorem aggregate_overwrites_first_object:
  "load_for_server ''/app'' ct_world = Inr server_keys
   \<and> aggregate_objects plain_env server_keys ct_world
        [''/app/ciphertexts/hospital1.ct'', ''/app/ciphertexts/hospital2.ct''] True
      = Inr [[2, 1 / 2, 1], [3, - 1, 3 / 2]]
   \<and> map (load_ctxt ct_world)
        [''/app/ciphertexts/hospital1.ct'', ''/app/ciphertexts/hospital2.ct'']
      \<noteq> map Inr [[2, 1 / 2, 1], [3, - 1, 3 / 2]]"
  by (simp add: demo_server demo_objects demo_load)

text \<open>
  C8, amended: \<^verbatim>\<open>aggregate_ciphertexts\<close> accumulates in place in the object loaded
  from the first path. Every other ciphertext object, one for each further path, still
  holds the value loaded from its file when the aggregation ends, and no file other than
  the output file is changed on disk.
\<close>

theorem aggregate_keeps_other_objects_and_files:
  "(aggregate_objects L HE w ps average = Inr store
      \<longrightarrow> length store = length ps \<and> map (load_ctxt w) (tl ps) = map Inr (tl store))
   \<and> (p \<noteq> global_out here average
      \<longrightarrow> files (snd (aggregate_ciphertexts L here w ps average)) p = files w p)"
  by (intro conjI impI aggregate_objects_tail aggregate_ciphertexts_frame)

theorem aggregate_keeps_other_objects_and_files_witness:
  "aggregate_objects plain_env server_keys ct_world
        [''/app/ciphertexts/hospital1.ct'', ''/app/ciphertexts/hospital2.ct''] True
      = Inr [[2, 1 / 2, 1], [3, - 1, 3 / 2]]
   \<and> load_ctxt ct_world ''/app/ciphertexts/hospital2.ct'' = Inr [3, - 1, 3 / 2]
   \<and> ''/app/ciphertexts/hospital1.ct'' \<noteq> global_out ''/app'' True
   \<and> files (snd (aggregate_ciphertexts plain_env ''/app'' ct_world
        [''/app/ciphertexts/hospital1.ct'', ''/app/ciphertexts/hospital2.ct''] True))
        ''/app/ciphertexts/hospital1.ct''
      = Some (CiphertextFile [1, 2, 1 / 2])"
proof -
  have f: "files ct_world ''/app/ciphertexts/hospital1.ct'' = Some (CiphertextFile [1, 2, 1 / 2])"
    by (simp add: ct_world_def files_put)
  from aggregate_keeps_other_objects_and_files
    [of plain_env server_keys ct_world
      "[''/app/ciphertexts/hospital1.ct'', ''/app/ciphertexts/hospital2.ct'']" True
      "[[2, 1 / 2, 1], [3, - 1, 3 / 2]]" "''/app/ciphertexts/hospital1.ct''" "''/app''"]
    demo_objects
  show ?thesis
    by (simp add: demo_paths f)
qed

section \<open>Decryption to CSV\<close>

lemma csv_paths_distinct: "idx_csv here \<noteq> named_csv here"
  by (simp add: path_eqs)

lemma save_idx_ok:
  assumes "files w (GLOBAL_DIR here) = Some Directory"
    and "files w (idx_csv here) \<noteq> Some Directory"
  shows "save w (idx_csv here) f = Inr (put w (idx_csv here) f)"
  using assms by (intro save_ok) (simp_all add: parent_eqs is_dir_def)

lemma decrypt_vector_error:
  "decrypt_vector L here w ct_path = Inl e \<Longrightarrow> e \<noteq> LengthMismatch a b"
  by (auto simp: decrypt_vector_def load_for_decrypt_def contextLoad_def restorepublicKey_def
      restoresecretKey_def load_ctxt_def
      split: sum.splits option.splits content.splits)

lemma decrypt_mismatch:
  assumes "decrypt_vector L here w ct_path = Inr vec"
    and "length canonical_features \<noteq> length vec"
    and "files w (GLOBAL_DIR here) = Some Directory"
    and "files w (idx_csv here) \<noteq> Some Directory"
  shows "decrypt_ciphertext_to_csv L here w ct_path canonical_features =
     (Inl (LengthMismatch (length canonical_features) (length vec)),
      put w (idx_csv here) (CsvFile (index_frame vec)))"
  using assms(1,2) save_idx_ok[OF assms(3,4)]
  by (simp add: decrypt_ciphertext_to_csv_def)

lemma decrypt_mismatch_fails:
  assumes "decrypt_vector L here w ct_path = Inr vec"
    and "length canonical_features \<noteq> length vec"
  shows "isl (fst (decrypt_ciphertext_to_csv L here w ct_path canonical_features))
     \<and> files (snd (decrypt_ciphertext_to_csv L here w ct_path canonical_features))
          (named_csv here) = files w (named_csv here)"
proof (cases "save w (idx_csv here) (CsvFile (index_frame vec))")
  case (Inl e)
  with assms show ?thesis by (simp add: decrypt_ciphertext_to_csv_def)
next
  case (Inr w1)
  from save_Inr[OF Inr] csv_paths_distinct[of here]
  have "files w1 (named_csv here) = files w (named_csv here)"
    by (simp add: files_put)
  with assms Inr show ?thesis by (simp add: decrypt_ciphertext_to_csv_def)
qed

lemma decrypt_mismatch_state:
  assumes "fst (decrypt_ciphertext_to_csv L here w ct_path canonical_features)
      = Inl (LengthMismatch a b)"
  shows "\<exists>vec. decrypt_vector L here w ct_path = Inr vec
      \<and> a = length canonical_features \<and> b = length vec \<and> a \<noteq> b
      \<and> snd (decrypt_ciphertext_to_csv L here w ct_path canonical_features)
          = put w (idx_csv here) (CsvFile (index_frame vec))"
proof (cases "decrypt_vector L here w ct_path")
  case (Inl e)
  with assms decrypt_vector_error[OF Inl, of a b] show ?thesis
    by (simp add: decrypt_ciphertext_to_csv_def)
next
  case vec: (Inr vec)
  show ?thesis
  proof (cases "save w (idx_csv here) (CsvFile (index_frame vec))")
    case (Inl e)
    with assms vec save_Inl[OF Inl] show ?thesis
      by (simp add: decrypt_ciphertext_to_csv_def)
  next
    case w1: (Inr w1)
    note p = save_Inr[OF w1]
    show ?thesis
    proof (cases "length canonical_features = length vec")
      case False
      with assms vec w1 p show ?thesis
        by (simp add: decrypt_ciphertext_to_csv_def)
    next
      case True
      show ?thesis
      proof (cases "save w1 (named_csv here) (CsvFile (named_frame canonical_features vec))")
        case (Inl e)
        with assms vec w1 True save_Inl[OF Inl] show ?thesis
          by (simp add: decrypt_ciphertext_to_csv_def)
      next
        case (Inr w2)
        with assms vec w1 True show ?thesis
          by (simp add: decrypt_ciphertext_to_csv_def)
      qed
    qed
  qed
qed

lemma decrypt_success:
  assumes "fst (decrypt_ciphertext_to_csv L here w ct_path canonical_features) = Inr r"
  shows "\<exists>vec. decrypt_vector L here w ct_path = Inr vec
      \<and> length canonical_features = length vec
      \<and> files (snd (decrypt_ciphertext_to_csv L here w ct_path canonical_features))
           (named_csv here) = Some (CsvFile (named_frame canonical_features vec))"
proof (cases "decrypt_vector L here w ct_path")
  case (Inl e)
  with assms show ?thesis by (simp add: decrypt_ciphertext_to_csv_def)
next
  case vec: (Inr vec)
  show ?thesis
  proof (cases "save w (idx_csv here) (CsvFile (index_frame vec))")
    case (Inl e)
    with assms vec show ?thesis by (simp add: decrypt_ciphertext_to_csv_def)
  next
    case w1: (Inr w1)
    show ?thesis
    proof (cases "length canonical_features = length vec")
      case False
      with assms vec w1 show ?thesis by (simp add: decrypt_ciphertext_to_csv_def)
    next
      case True
      show ?thesis
      proof (cases "save w1 (named_csv here) (CsvFile (named_frame canonical_features vec))")
        case (Inl e)
        with assms vec w1 True show ?thesis by (simp add: decrypt_ciphertext_to_csv_def)
      next
        case (Inr w2)
        with assms vec w1 True save_Inr[OF Inr] show ?thesis
          by (simp add: decrypt_ciphertext_to_csv_def files_put)
      qed
    qed
  qed
qed

lemmas decrypt_defs = decrypt_vector_def load_for_decrypt_def contextLoad_def
  restorepublicKey_def restoresecretKey_def load_ctxt_def demo_paths Pyfhel_def plain_env_def

lemma demo_decrypt_vector:
  "decrypt_vector plain_env ''/app'' avg_world ''/app/global/global_avg.ct'' = Inr [2, 1 / 2, 1]"
  "decrypt_vector plain_env ''/app'' party_world ''/app/inbox.ct'' = Inr [2, 1 / 2, 1]"
  by (simp_all add: decrypt_defs avg_world_def keyed_world_def party_world_def files_put)

lemma demo_avg_files:
  "files avg_world ''/app/global'' = Some Directory"
  "files avg_world ''/app/global/global_weights.csv'' = None"
  "files avg_world ''/app/global/global_weights_named.csv'' = None"
  by (simp_all add: avg_world_def keyed_world_def files_put)

lemma demo_party_save:
  "save party_world ''/app/global/global_weights.csv'' f
     = Inl (OSError ''/app/global/global_weights.csv'')"
  by (simp add: save_def demo_parents is_dir_def party_world_def)

lemma demo_decrypt_ok:
  "fst (decrypt_ciphertext_to_csv plain_env ''/app'' avg_world ''/app/global/global_avg.ct''
        [''age'', ''bmi'', ''Intercept''])
     = Inr (''/app/global/global_weights.csv'', ''/app/global/global_weights_named.csv'')"
  by (simp add: decrypt_ciphertext_to_csv_def demo_decrypt_vector demo_paths demo_parents
      save_def is_dir_def demo_avg_files files_put)

text \<open>
  C5, as stated: whenever the feature-name list and the decrypted vector differ in
  length, the call raises the length-mismatch error. It fails where the index CSV cannot
  be written, since \<^verbatim>\<open>to_csv\<close> runs before the comparison: a decrypting party that has
  the keys and a ciphertext of three values but no \<^verbatim>\<open>global\<close> directory gets the error
  of the write, for a list of two names, and the lengths are never compared.
\<close>

theorem length_mismatch_write_error_first:
  "decrypt_vector plain_env ''/app'' party_world ''/app/inbox.ct'' = Inr [2, 1 / 2, 1]
   \<and> length [''age'', ''Intercept''] \<noteq> length [2, 1 / 2, 1 :: real]
   \<and> decrypt_ciphertext_to_csv plain_env ''/app'' party_world ''/app/inbox.ct''
        [''age'', ''Intercept'']
      = (Inl (OSError ''/app/global/global_weights.csv''), party_world)"
  by (simp add: decrypt_ciphertext_to_csv_def demo_decrypt_vector demo_paths demo_party_save)

text \<open>
  C5, amended: when the feature-name list and the decrypted vector differ in length and
  the index CSV can be written (the \<^verbatim>\<open>global\<close> directory exists and the index path is
  not a directory), \<^verbatim>\<open>decrypt_ciphertext_to_csv\<close> raises the length-mismatch error,
  which carries both lengths, after writing the whole vector to the index CSV. With
  differing lengths the call fails in every case and leaves the named CSV as it was.
  Neither sequence is cut or padded: the function returns normally only for equal
  lengths, the named CSV then holding the names and the values as they were given.
\<close>

theorem length_mismatch_raises_after_index_write:
  "(decrypt_vector L here w ct_path = Inr vec \<and> length canonical_features \<noteq> length vec
      \<and> files w (GLOBAL_DIR here) = Some Directory
      \<and> files w (idx_csv here) \<noteq> Some Directory
      \<longrightarrow> decrypt_ciphertext_to_csv L here w ct_path canonical_features =
           (Inl (LengthMismatch (length canonical_features) (length vec)),
            put w (idx_csv here) (CsvFile (index_frame vec))))
   \<and> (decrypt_vector L here w ct_path = Inr vec \<and> length canonical_features \<noteq> length vec
      \<longrightarrow> isl (fst (decrypt_ciphertext_to_csv L here w ct_path canonical_features))
          \<and> files (snd (decrypt_ciphertext_to_csv L here w ct_path canonical_features))
               (named_csv here) = files w (named_csv here))
   \<and> (fst (decrypt_ciphertext_to_csv L here w ct_path canonical_features) = Inr r
      \<longrightarrow> (\<exists>vec. decrypt_vector L here w ct_path = Inr vec
             \<and> length canonical_features = length vec
             \<and> files (snd (decrypt_ciphertext_to_csv L here w ct_path canonical_features))
                  (named_csv here) = Some (CsvFile (named_frame canonical_features vec))))"
  using decrypt_mismatch[of L here w ct_path vec canonical_features]
    decrypt_mismatch_fails[of L here w ct_path vec canonical_features]
    decrypt_success[of L here w ct_path canonical_features r]
  by (intro conjI impI) simp_all

theorem length_mismatch_raises_after_index_write_witness:
  "decrypt_vector plain_env ''/app'' avg_world ''/app/global/global_avg.ct'' = Inr [2, 1 / 2, 1]
   \<and> length [''age'', ''Intercept''] \<noteq> length [2, 1 / 2, 1 :: real]
   \<and> files avg_world (GLOBAL_DIR ''/app'') = Some Directory
   \<and> files avg_world (idx_csv ''/app'') \<noteq> Some Directory
   \<and> decrypt_ciphertext_to_csv plain_env ''/app'' avg_world ''/app/global/global_avg.ct''
        [''age'', ''Intercept'']
      = (Inl (LengthMismatch 2 3),
         put avg_world ''/app/global/global_weights.csv''
           (CsvFile [(''Index'', [Num 0, Num 1, Num 2]),
                     (''Value'', [Num 2, Num (1 / 2), Num 1])]))
   \<and> files (snd (decrypt_ciphertext_to_csv plain_env ''/app'' avg_world
        ''/app/global/global_avg.ct'' [''age'', ''Intercept'']))
        ''/app/global/global_weights_named.csv'' = None
   \<and> fst (decrypt_ciphertext_to_csv plain_env ''/app'' avg_world ''/app/global/global_avg.ct''
        [''age'', ''bmi'', ''Intercept''])
      = Inr (''/app/global/global_weights.csv'', ''/app/global/global_weights_named.csv'')
   \<and> files (snd (decrypt_ciphertext_to_csv plain_env ''/app'' avg_world
        ''/app/global/global_avg.ct'' [''age'', ''bmi'', ''Intercept'']))
        ''/app/global/global_weights_named.csv''
      = Some (CsvFile [(''Feature'', [Str ''age'', Str ''bmi'', Str ''Intercept'']),
                       (''Coefficient'', [Num 2, Num (1 / 2), Num 1])])"
proof -
  let ?ct = "''/app/global/global_avg.ct''"
  have upt: "[0..<3] = [0, 1, 2]"
    by (simp add: upt_rec)
  have dir: "files avg_world (GLOBAL_DIR ''/app'') = Some Directory"
    "files avg_world (idx_csv ''/app'') \<noteq> Some Directory"
    by (simp_all add: demo_paths demo_avg_files)
  have len: "length [''age'', ''Intercept''] \<noteq> length [2, 1 / 2, 1 :: real]"
    by simp
  note short = length_mismatch_raises_after_index_write
    [where L = plain_env and here = "''/app''" and w = avg_world and ct_path = ?ct
      and vec = "[2, 1 / 2, 1]" and canonical_features = "[''age'', ''Intercept'']"]
  note full = length_mismatch_raises_after_index_write
    [where L = plain_env and here = "''/app''" and w = avg_world and ct_path = ?ct
      and canonical_features = "[''age'', ''bmi'', ''Intercept'']"
      and r = "(''/app/global/global_weights.csv'', ''/app/global/global_weights_named.csv'')"]
  have raised: "decrypt_ciphertext_to_csv plain_env ''/app'' avg_world ?ct [''age'', ''Intercept'']
      = (Inl (LengthMismatch 2 3),
         put avg_world ''/app/global/global_weights.csv'' (CsvFile (index_frame [2, 1 / 2, 1])))"
    using short[THEN conjunct1] demo_decrypt_vector(1) len dir
    by (simp add: demo_paths)
  have kept: "files (snd (decrypt_ciphertext_to_csv plain_env ''/app'' avg_world ?ct
        [''age'', ''Intercept''])) ''/app/global/global_weights_named.csv'' = None"
    using short[THEN conjunct2, THEN conjunct1] demo_decrypt_vector(1) len
    by (simp add: demo_paths demo_avg_files)
  from full[THEN conjunct2, THEN conjunct2] demo_decrypt_ok
  obtain v where v: "decrypt_vector plain_env ''/app'' avg_world ?ct = Inr v"
    and named: "files (snd (decrypt_ciphertext_to_csv plain_env ''/app'' avg_world ?ct
        [''age'', ''bmi'', ''Intercept''])) (named_csv ''/app'')
      = Some (CsvFile (named_frame [''age'', ''bmi'', ''Intercept''] v))"
    by blast
  from v demo_decrypt_vector(1) have "v = [2, 1 / 2, 1]"
    by simp
  with named have written: "files (snd (decrypt_ciphertext_to_csv plain_env ''/app'' avg_world ?ct
        [''age'', ''bmi'', ''Intercept''])) ''/app/global/global_weights_named.csv''
      = Some (CsvFile [(''Feature'', [Str ''age'', Str ''bmi'', Str ''Intercept'']),
                       (''Coefficient'', [Num 2, Num (1 / 2), Num 1])])"
    by (simp add: demo_paths named_frame_def)
  have idx: "index_frame [2, 1 / 2, 1]
      = [(''Index'', [Num 0, Num 1, Num 2]), (''Value'', [Num 2, Num (1 / 2), Num 1])]"
    by (simp add: index_frame_def upt)
  show ?thesis
    unfolding raised kept written idx [symmetric]
    using demo_decrypt_vector(1) len dir demo_decrypt_ok
    by (simp add: files_put demo_avg_files)
qed

text \<open>
  C10. \<^verbatim>\<open>decrypt_ciphertext_to_csv\<close> writes the index CSV before it compares the
  lengths: whenever it raises the length-mismatch error, the index CSV is on disk, with
  the whole decrypted vector, and the named CSV is as it was before the call.
\<close>

theorem index_csv_written_before_length_check:
  "fst (decrypt_ciphertext_to_csv L here w ct_path canonical_features)
      = Inl (LengthMismatch a b)
   \<Longrightarrow> (\<exists>vec. decrypt_vector L here w ct_path = Inr vec \<and> length vec = b
          \<and> files (snd (decrypt_ciphertext_to_csv L here w ct_path canonical_features))
               (idx_csv here) = Some (CsvFile (index_frame vec)))
       \<and> files (snd (decrypt_ciphertext_to_csv L here w ct_path canonical_features))
            (named_csv here) = files w (named_csv here)"
  using decrypt_mismatch_state[of L here w ct_path canonical_features a b]
    csv_paths_distinct[of here]
  by (auto simp: files_put)

theorem index_csv_written_before_length_check_witness:
  "fst (decrypt_ciphertext_to_csv plain_env ''/app'' avg_world ''/app/global/global_avg.ct''
        [''age'', ''Intercept''])
      = Inl (LengthMismatch 2 3)
   \<and> files avg_world (idx_csv ''/app'') = None
   \<and> files (snd (decrypt_ciphertext_to_csv plain_env ''/app'' avg_world
        ''/app/global/global_avg.ct'' [''age'', ''Intercept''])) (idx_csv ''/app'')
      = Some (CsvFile (index_frame [2, 1 / 2, 1]))
   \<and> files (snd (decrypt_ciphertext_to_csv plain_env ''/app'' avg_world
        ''/app/global/global_avg.ct'' [''age'', ''Intercept''])) (named_csv ''/app'')
      = None"
proof -
  have err: "fst (decrypt_ciphertext_to_csv plain_env ''/app'' avg_world
        ''/app/global/global_avg.ct'' [''age'', ''Intercept'']) = Inl (LengthMismatch 2 3)"
    by (simp add: decrypt_ciphertext_to_csv_def demo_decrypt_vector demo_paths demo_parents
        save_def is_dir_def demo_avg_files)
  from index_csv_written_before_length_check[OF err] demo_decrypt_vector(1) err
  show ?thesis
    by (simp add: demo_paths demo_avg_files)
qed

section \<open>Fatal errors of the command line\<close>

text \<open>
  Up to the comparison of the two lengths, \<^verbatim>\<open>main\<close> only creates directories, key
  files and ciphertext files: a path that holds a CSV file then held the same file at the
  start, and the aggregate files are not touched.
\<close>

lemma weights_csv_to_vector_cong:
  "files w' p = files w p \<Longrightarrow> weights_csv_to_vector L w' p = weights_csv_to_vector L w p"
  by (simp add: weights_csv_to_vector_def read_csv_def)

lemma read_csv_Inr: "read_csv w p = Inr df \<longleftrightarrow> files w p = Some (CsvFile df)"
  by (auto simp: read_csv_def split: option.splits content.splits)

lemma weights_csv_to_vector_Inr:
  "weights_csv_to_vector L w p = Inr v \<Longrightarrow> \<exists>df. files w p = Some (CsvFile df)"
  by (cases "read_csv w p") (auto simp: weights_csv_to_vector_def read_csv_Inr)

lemma dirs_not_out:
  "KEY_DIR here \<noteq> global_out here b" "CT_DIR here \<noteq> global_out here b"
  "GLOBAL_DIR here \<noteq> global_out here b"
  "ctx_path here \<noteq> global_out here b" "pub_path here \<noteq> global_out here b"
  by (simp_all add: path_eqs)

lemma ct_not_out: "take 1 n \<noteq> ''/'' \<Longrightarrow> join (CT_DIR here) n \<noteq> global_out here b"
  by (simp add: ct_path_eq global_out_eq)

lemma only_adds_refl: "only_adds here w w"
  by (simp add: only_adds_def)

lemma only_adds_trans:
  assumes "only_adds here w w'" and "only_adds here w' w''"
  shows "only_adds here w w''"
  unfolding only_adds_def
proof (intro conjI allI)
  fix p
  from assms(2) have "files w'' p = files w' p
      \<or> (\<exists>f. files w'' p = Some f \<and> (\<forall>df. f \<noteq> CsvFile df))"
    by (simp add: only_adds_def)
  moreover from assms(1) have "files w' p = files w p
      \<or> (\<exists>f. files w' p = Some f \<and> (\<forall>df. f \<noteq> CsvFile df))"
    by (simp add: only_adds_def)
  ultimately show "files w'' p = files w p
      \<or> (\<exists>f. files w'' p = Some f \<and> (\<forall>df. f \<noteq> CsvFile df))"
    by auto
next
  fix b
  from assms show "files w'' (global_out here b) = files w (global_out here b)"
    by (simp add: only_adds_def)
qed

lemma only_adds_entropy: "only_adds here w (w\<lparr>entropy := r\<rparr>)"
  by (simp add: only_adds_def)

lemma only_adds_put:
  assumes "\<forall>df. f \<noteq> CsvFile df" and "\<forall>b. q \<noteq> global_out here b"
  shows "only_adds here w (put w q f)"
  using assms by (auto simp: only_adds_def files_put)

lemma only_adds_save:
  assumes "save w q f = Inr w'" and "\<forall>df. f \<noteq> CsvFile df" and "\<forall>b. q \<noteq> global_out here b"
  shows "only_adds here w w'"
  using save_Inr[OF assms(1)] only_adds_put[OF assms(2,3)] by simp

lemma makedirs_step:
  assumes "makedirs w d = Inr w'" and "\<forall>b. d \<noteq> global_out here b"
  shows "only_adds here w w'"
proof (cases "files w d")
  case None
  with assms(1) have "w' = put w d Directory" by (simp add: makedirs_def)
  with only_adds_put[OF _ assms(2), of Directory w] show ?thesis by simp
next
  case (Some f)
  with assms(1) have "w' = w" by (cases f) (simp_all add: makedirs_def)
  then show ?thesis by (simp add: only_adds_refl)
qed

lemma ensure_dirs_step:
  assumes "ensure_dirs here w = (r, w')"
  shows "only_adds here w w'"
proof (cases "makedirs w (KEY_DIR here)")
  case (Inl e)
  with assms show ?thesis by (simp add: ensure_dirs_def only_adds_refl)
next
  case a: (Inr wa)
  have sa: "only_adds here w wa"
    using a by (rule makedirs_step) (simp add: dirs_not_out)
  show ?thesis
  proof (cases "makedirs wa (CT_DIR here)")
    case (Inl e)
    with assms a have "w' = wa" by (simp add: ensure_dirs_def)
    with sa show ?thesis by simp
  next
    case b: (Inr wb)
    have sb: "only_adds here wa wb"
      using b by (rule makedirs_step) (simp add: dirs_not_out)
    show ?thesis
    proof (cases "makedirs wb (GLOBAL_DIR here)")
      case (Inl e)
      with assms a b have "w' = wb" by (simp add: ensure_dirs_def)
      with only_adds_trans[OF sa sb] show ?thesis by simp
    next
      case c: (Inr wc)
      have sc: "only_adds here wb wc"
        using c by (rule makedirs_step) (simp add: dirs_not_out)
      from assms a b c have "w' = wc" by (simp add: ensure_dirs_def)
      with only_adds_trans[OF only_adds_trans[OF sa sb] sc] show ?thesis by simp
    qed
  qed
qed

lemma keygen_step:
  assumes "keygen_if_missing L here w n sb sec = (r, w')"
  shows "only_adds here w w'"
proof (cases "exists w (ctx_path here) \<and> exists w (pub_path here) \<and> exists w (sec_path here)")
  case True
  from keygen_loads_unchanged[OF True, of L n sb sec] assms have "w' = w" by simp
  then show ?thesis by (simp add: only_adds_refl)
next
  case False
  show ?thesis
  proof (cases "contextGen L ''CKKS'' n (2 ^ sb) sec")
    case None
    with False assms have "w' = w" by (auto simp: keygen_if_missing_def)
    then show ?thesis by (simp add: only_adds_refl)
  next
    case (Some c)
    obtain pk sk rr where kg: "keyGen L c (entropy w) = ((pk, sk), rr)"
      by (metis prod.exhaust)
    let ?w0 = "w\<lparr>entropy := rr\<rparr>"
    note s0 = only_adds_entropy[of here w rr]
    show ?thesis
    proof (cases "save ?w0 (ctx_path here) (ContextFile c)")
      case (Inl e)
      with False assms Some kg have "w' = ?w0" by (auto simp: keygen_if_missing_def)
      with s0 show ?thesis by simp
    next
      case a: (Inr w1)
      have s1: "only_adds here w w1"
        by (rule only_adds_trans[OF s0 only_adds_save[OF a]]) (simp_all add: dirs_not_out)
      show ?thesis
      proof (cases "save w1 (pub_path here) (PublicKeyFile pk)")
        case (Inl e)
        with False assms Some kg a have "w' = w1" by (auto simp: keygen_if_missing_def)
        with s1 show ?thesis by simp
      next
        case b: (Inr w2)
        have s2: "only_adds here w w2"
          by (rule only_adds_trans[OF s1 only_adds_save[OF b]]) (simp_all add: dirs_not_out)
        show ?thesis
        proof (cases "save w2 (sec_path here) (SecretKeyFile sk)")
          case (Inl e)
          with False assms Some kg a b have "w' = w2" by (auto simp: keygen_if_missing_def)
          with s2 show ?thesis by simp
        next
          case c: (Inr w3)
          have s3: "only_adds here w w3"
            by (rule only_adds_trans[OF s2 only_adds_save[OF c]])
               (simp_all add: sec_not_key)
          from False assms Some kg a b c have "w' = w3" by (auto simp: keygen_if_missing_def)
          with s3 show ?thesis by simp
        qed
      qed
    qed
  qed
qed

lemma encrypt_step:
  assumes "encrypt_weights_csv L here w csv out_name v = (r, w')"
    and "take 1 out_name \<noteq> ''/''"
  shows "only_adds here w w'"
proof -
  obtain rk wk where k: "keygen_default L here w = (rk, wk)"
    by (cases "keygen_default L here w")
  then have k': "keygen_if_missing L here w (2 ^ 15) 40 128 = (rk, wk)"
    by (simp add: keygen_default_def)
  note sk = keygen_step[OF k']
  have out: "\<forall>b. join (CT_DIR here) out_name \<noteq> global_out here b"
    using ct_not_out[OF assms(2)] by simp
  from assms(1) have "w' = wk \<or> (\<exists>rr. w' = wk\<lparr>entropy := rr\<rparr>)
      \<or> (\<exists>c rr. save (wk\<lparr>entropy := rr\<rparr>) (join (CT_DIR here) out_name) (CiphertextFile c)
            = Inr w')"
    by (auto simp: encrypt_weights_csv_def k Let_def split: sum.splits option.splits)
  then show ?thesis
  proof (elim disjE exE)
    assume "w' = wk"
    with sk show ?thesis by simp
  next
    fix rr assume "w' = wk\<lparr>entropy := rr\<rparr>"
    with only_adds_trans[OF sk only_adds_entropy[of here wk rr]] show ?thesis by simp
  next
    fix c rr
    assume s: "save (wk\<lparr>entropy := rr\<rparr>) (join (CT_DIR here) out_name) (CiphertextFile c)
        = Inr w'"
    have "only_adds here (wk\<lparr>entropy := rr\<rparr>) w'"
      using s _ out by (rule only_adds_save) simp
    from only_adds_trans[OF only_adds_trans[OF sk only_adds_entropy[of here wk rr]] this]
    show ?thesis .
  qed
qed

lemma csv_came_from:
  assumes "files w' p = Some (CsvFile df)" and "only_adds here w w'"
  shows "files w p = Some (CsvFile df)"
proof -
  from assms(2) have "files w' p = files w p
      \<or> (\<exists>f. files w' p = Some f \<and> (\<forall>df. f \<noteq> CsvFile df))"
    by (simp add: only_adds_def)
  with assms(1) show ?thesis by auto
qed

lemma main_cases:
  assumes m: "main L here w a = (r, w')"
  shows "(isl r \<and> (\<forall>b. files w' (global_out here b) = files w (global_out here b)))
     \<or> (\<exists>v1 v2. weights_csv_to_vector L w (h1 a) = Inr v1
          \<and> weights_csv_to_vector L w (h2 a) = Inr v2 \<and> length v1 = length v2)"
proof -
  obtain r0 w0 where e0: "ensure_dirs here w = (r0, w0)"
    by (cases "ensure_dirs here w")
  note s0 = ensure_dirs_step[OF e0]
  have stop: "isl r \<and> (\<forall>b. files w' (global_out here b) = files w (global_out here b))"
    if "isl r" and "only_adds here w w'"
    using that by (simp add: only_adds_def)
  show ?thesis
  proof (cases r0)
    case (Inl e)
    with m e0 have "r = Inl e" "w' = w0" by (simp_all add: main_def)
    with s0 stop show ?thesis by simp
  next
    case d: (Inr u)
    show ?thesis
    proof (cases "exists w0 (h1 a) \<and> exists w0 (h2 a)")
      case False
      with m e0 d have "isl r \<and> w' = w0" by (auto simp: main_def split: if_splits)
      with s0 stop show ?thesis by simp
    next
      case ex: True
      obtain r1 w1 where e1:
        "encrypt_weights_csv L here w0 (h1 a) ''hospital1.ct'' (verify a) = (r1, w1)"
        by (cases "encrypt_weights_csv L here w0 (h1 a) ''hospital1.ct'' (verify a)")
      have "only_adds here w0 w1"
        by (rule encrypt_step[OF e1]) simp
      note s1 = only_adds_trans[OF s0 this]
      show ?thesis
      proof (cases r1)
        case (Inl e)
        with m e0 d ex e1 have "r = Inl e" "w' = w1" by (simp_all add: main_def)
        with s1 stop show ?thesis by simp
      next
        case c1: (Inr ct1)
        obtain r2 w2 where e2:
          "encrypt_weights_csv L here w1 (h2 a) ''hospital2.ct'' (verify a) = (r2, w2)"
          by (cases "encrypt_weights_csv L here w1 (h2 a) ''hospital2.ct'' (verify a)")
        have "only_adds here w1 w2"
          by (rule encrypt_step[OF e2]) simp
        note s2 = only_adds_trans[OF s1 this]
        have keep: "weights_csv_to_vector L w p = Inr v"
          if v: "weights_csv_to_vector L w2 p = Inr v" for p v
        proof -
          from weights_csv_to_vector_Inr[OF v] obtain df
            where f2: "files w2 p = Some (CsvFile df)" ..
          from csv_came_from[OF f2 s2] f2 have "files w2 p = files w p" by simp
          from weights_csv_to_vector_cong[OF this, of L] v show ?thesis by simp
        qed
        show ?thesis
        proof (cases r2)
          case (Inl e)
          with m e0 d ex e1 c1 e2 have "r = Inl e" "w' = w2" by (simp_all add: main_def)
          with s2 stop show ?thesis by simp
        next
          case c2: (Inr ct2)
          show ?thesis
          proof (cases "weights_csv_to_vector L w2 (h1 a)")
            case (Inl e)
            with m e0 d ex e1 c1 e2 c2 have "r = Inl e" "w' = w2" by (simp_all add: main_def)
            with s2 stop show ?thesis by simp
          next
            case v1: (Inr v1)
            show ?thesis
            proof (cases "weights_csv_to_vector L w2 (h2 a)")
              case (Inl e)
              with m e0 d ex e1 c1 e2 c2 v1 have "r = Inl e" "w' = w2"
                by (simp_all add: main_def)
              with s2 stop show ?thesis by simp
            next
              case v2: (Inr v2)
              show ?thesis
              proof (cases "length v1 = length v2")
                case False
                with m e0 d ex e1 c1 e2 c2 v1 v2 have "isl r \<and> w' = w2"
                  by (auto simp: main_def)
                with s2 stop show ?thesis by simp
              next
                case True
                with keep[OF v1] keep[OF v2] show ?thesis by blast
              qed
            qed
          qed
        qed
      qed
    qed
  qed
qed

lemma demo_is_intercept:
  "is_intercept L (Str ''Intercept'')" "\<not> is_intercept L (Str ''age'')"
  "\<not> is_intercept L (Str ''bmi'')"
  by (simp_all add: is_intercept_def astype_str_def lower_char_def)

lemma demo_vectors:
  "weights_csv_to_vector plain_env data_world ''/data/h1.csv'' = Inr [1 / 2, - 1, 2]"
  "weights_csv_to_vector plain_env data_world ''/data/h2.csv'' = Inr [3, 1]"
  by (simp_all add: weights_csv_to_vector_def read_csv_def data_world_def h1_frame_def
      h2_frame_def find_coef_column_def columns_def column_def demo_is_intercept
      to_float_def Let_def)

text \<open>
  C7. \<^verbatim>\<open>main\<close> ends with an exception whenever one of the two weight files does not
  exist, and whenever the two files give weight vectors of different lengths. In both
  cases it stops before the aggregation: the aggregate files \<^verbatim>\<open>global_avg.ct\<close> and
  \<^verbatim>\<open>global_sum.ct\<close> are as they were before the run.
\<close>

theorem main_fatal_without_aggregate:
  "(\<not> exists w (h1 a) \<or> \<not> exists w (h2 a)
      \<longrightarrow> isl (fst (main L here w a))
          \<and> (\<forall>b. files (snd (main L here w a)) (global_out here b) = files w (global_out here b)))
   \<and> (weights_csv_to_vector L w (h1 a) = Inr v1 \<and> weights_csv_to_vector L w (h2 a) = Inr v2
        \<and> length v1 \<noteq> length v2
      \<longrightarrow> isl (fst (main L here w a))
          \<and> (\<forall>b. files (snd (main L here w a)) (global_out here b) = files w (global_out here b)))"
proof -
  obtain r w' where m: "main L here w a = (r, w')"
    by (cases "main L here w a")
  note c = main_cases[OF m]
  show ?thesis
  proof (intro conjI impI)
    assume "\<not> exists w (h1 a) \<or> \<not> exists w (h2 a)"
    then have "files w (h1 a) = None \<or> files w (h2 a) = None"
      by (simp add: exists_def)
    then have "\<not> (\<exists>v1 v2. weights_csv_to_vector L w (h1 a) = Inr v1
          \<and> weights_csv_to_vector L w (h2 a) = Inr v2 \<and> length v1 = length v2)"
      using weights_csv_to_vector_Inr[of L w "h1 a"] weights_csv_to_vector_Inr[of L w "h2 a"]
      by fastforce
    with c have "isl r \<and> (\<forall>b. files w' (global_out here b) = files w (global_out here b))"
      by blast
    with m show "isl (fst (main L here w a))"
      and "\<forall>b. files (snd (main L here w a)) (global_out here b) = files w (global_out here b)"
      by simp_all
  next
    assume "weights_csv_to_vector L w (h1 a) = Inr v1 \<and> weights_csv_to_vector L w (h2 a) = Inr v2
        \<and> length v1 \<noteq> length v2"
    then have "\<not> (\<exists>v1 v2. weights_csv_to_vector L w (h1 a) = Inr v1
          \<and> weights_csv_to_vector L w (h2 a) = Inr v2 \<and> length v1 = length v2)"
      by auto
    with c have "isl r \<and> (\<forall>b. files w' (global_out here b) = files w (global_out here b))"
      by blast
    with m show "isl (fst (main L here w a))"
      and "\<forall>b. files (snd (main L here w a)) (global_out here b) = files w (global_out here b)"
      by simp_all
  qed
qed

text \<open>Three runs of \<^verbatim>\<open>main\<close> with the stand-in library.\<close>

lemmas run_defs = main_def ensure_dirs_def makedirs_def save_def is_dir_def put_def
  exists_def encrypt_weights_csv_def keygen_default_def keygen_if_missing_def
  contextLoad_def restorepublicKey_def restoresecretKey_def Pyfhel_def load_ctxt_def
  demo_paths demo_parents demo_ct_parents plain_env_def
  weights_csv_to_vector_def weights_csv_feature_names_def read_csv_def
  find_coef_column_def columns_def column_def demo_is_intercept astype_str_def
  to_float_def Let_def
  aggregate_ciphertexts_def aggregate_objects_def load_for_server_def
  decrypt_ciphertext_to_csv_def decrypt_vector_def load_for_decrypt_def
  index_frame_def named_frame_def

lemma demo_main_mismatch:
  "fst (main plain_env ''/app'' data_world demo_args) = Inl (WeightLengthMismatch 3 2)"
  by (simp add: run_defs data_world_def demo_args_def h1_frame_def h2_frame_def)

lemma demo_main_missing:
  "fst (main plain_env ''/app'' data_world (demo_args\<lparr>h2 := ''/data/h3.csv''\<rparr>))
     = Inl (FileNotFoundError ''/data/h3.csv'')"
  by (simp add: run_defs data_world_def demo_args_def h1_frame_def h2_frame_def)

lemma demo_main_run:
  "fst (main plain_env ''/app'' pair_world demo_args) = Inr ()
   \<and> files (snd (main plain_env ''/app'' pair_world demo_args))
        ''/app/global/global_weights_named.csv''
      = Some (CsvFile [(''Feature'', [Str ''age'', Str ''bmi'', Str ''Intercept'']),
                       (''Coefficient'', [Num 1, Num 1, Num (3 / 2)])])"
  by (simp add: run_defs pair_world_def demo_args_def h1_frame_def h3_frame_def upt_rec)

theorem main_fatal_without_aggregate_witness:
  "\<not> exists data_world ''/data/h3.csv''
   \<and> fst (main plain_env ''/app'' data_world (demo_args\<lparr>h2 := ''/data/h3.csv''\<rparr>))
       = Inl (FileNotFoundError ''/data/h3.csv'')
   \<and> files (snd (main plain_env ''/app'' data_world (demo_args\<lparr>h2 := ''/data/h3.csv''\<rparr>)))
         ''/app/global/global_avg.ct'' = None
   \<and> weights_csv_to_vector plain_env data_world ''/data/h1.csv'' = Inr [1 / 2, - 1, 2]
   \<and> weights_csv_to_vector plain_env data_world ''/data/h2.csv'' = Inr [3, 1]
   \<and> fst (main plain_env ''/app'' data_world demo_args) = Inl (WeightLengthMismatch 3 2)
   \<and> files (snd (main plain_env ''/app'' data_world demo_args))
         ''/app/global/global_avg.ct'' = None"
proof -
  have missing: "\<not> exists data_world (h2 (demo_args\<lparr>h2 := ''/data/h3.csv''\<rparr>))"
    by (simp add: exists_def data_world_def)
  have vecs: "weights_csv_to_vector plain_env data_world (h1 demo_args) = Inr [1 / 2, - 1, 2]"
    "weights_csv_to_vector plain_env data_world (h2 demo_args) = Inr [3, 1]"
    by (simp_all add: demo_args_def demo_vectors)
  have none: "files data_world ''/app/global/global_avg.ct'' = None"
    by (simp add: data_world_def)
  from main_fatal_without_aggregate
    [where L = plain_env and here = "''/app''" and w = data_world
      and a = "demo_args\<lparr>h2 := ''/data/h3.csv''\<rparr>"]
    main_fatal_without_aggregate
    [where L = plain_env and here = "''/app''" and w = data_world and a = demo_args
      and ?v1.0 = "[1 / 2, - 1, 2]" and ?v2.0 = "[3, 1]"]
    missing vecs
  have "files (snd (main plain_env ''/app'' data_world (demo_args\<lparr>h2 := ''/data/h3.csv''\<rparr>)))
         (global_out ''/app'' True) = files data_world (global_out ''/app'' True)"
    and "files (snd (main plain_env ''/app'' data_world demo_args)) (global_out ''/app'' True)
         = files data_world (global_out ''/app'' True)"
    by simp_all
  with missing demo_vectors demo_main_missing demo_main_mismatch none show ?thesis
    by (simp add: demo_paths)
qed

end
